theory Spec2Isabelle
  imports Complex_Main "HOL-Library.Sublist" "HOL-Library.Multiset"
begin

section \<open>Data model\<close>

text \<open>
  The Django models of the affiliate platform as records. A foreign key is the
  primary key of the row it points to; a nullable column is an \<open>option\<close>.
  \<open>DecimalField\<close> values are the rational numbers they denote, timestamps are
  seconds on the server clock.
\<close>

type_synonym decimal = rat
type_synonym datetime = int

text \<open>\<open>users/models.py\<close>: \<open>User\<close>. The role is a free character column
  (\<open>choices\<close> are only checked by form and serializer validation).\<close>

record User =
  user_id :: nat
  username :: string
  role :: string
  is_superuser :: bool

definition is_affiliate :: "User \<Rightarrow> bool" where
  "is_affiliate u = (role u = ''affiliate'')"

definition is_merchant :: "User \<Rightarrow> bool" where
  "is_merchant u = (role u = ''merchant'')"

text \<open>\<open>products/models.py\<close>: \<open>Product\<close>.\<close>

record Product =
  product_id :: nat
  product_name :: string
  price :: decimal
  merchant :: nat
  commission_rate :: decimal
  external_url :: "string option"
  product_is_active :: bool

text \<open>The tracking models, with the columns that the serializers, the admin classes and
  the views of the tracking application read and write.\<close>

record AffiliateLink =
  link_id :: nat
  code :: string
  affiliate :: nat
  product :: nat
  custom_slug :: "string option"
  landing_url :: "string option"
  is_active :: bool
  expires_at :: "datetime option"

record Click =
  click_affiliate_link :: nat
  ip_address :: "string option"
  user_agent :: string
  referrer :: string
  device_type :: string
  click_timestamp :: datetime

section \<open>Device classification\<close>

text \<open>
  Python's \<open>str.lower\<close> on the characters a request header can hold. WSGI hands
  header values over as Latin-1 text, which is what an 8-bit \<open>char\<close> is: the
  letters A-Z and the accented capitals 192-222 (without the multiplication sign 215)
  move up by 32, every other character is kept.
\<close>

definition lower_char :: "char \<Rightarrow> char" where
  "lower_char c =
     (let n = (of_char c :: nat)
      in if (65 \<le> n \<and> n \<le> 90) \<or> (192 \<le> n \<and> n \<le> 222 \<and> n \<noteq> 215)
         then char_of (n + 32) else c)"

definition str_lower :: "string \<Rightarrow> string" where
  "str_lower s = map lower_char s"

definition mobile_patterns :: "string list" where
  "mobile_patterns =
     [''mobile'', ''android'', ''iphone'', ''ipod'', ''blackberry'',
      ''windows phone'', ''palm'', ''symbian'']"

definition tablet_patterns :: "string list" where
  "tablet_patterns = [''ipad'', ''tablet'', ''kindle'']"

text \<open>The loop \<open>for pattern in patterns: if pattern in user_agent: return ...\<close>:
  whether the loop returns. \<open>pattern in user_agent\<close> is the contiguous-substring
  test \<open>sublist\<close>.\<close>

fun some_pattern_in :: "string list \<Rightarrow> string \<Rightarrow> bool" where
  "some_pattern_in [] s = False"
| "some_pattern_in (p # ps) s = (if sublist p s then True else some_pattern_in ps s)"

text \<open>\<open>detect_device_type\<close> of \<open>tracking/views.py\<close>. The argument is \<open>None\<close>
  or a string; \<open>not user_agent\<close> holds for \<open>None\<close> and for the empty string.\<close>

definition detect_device_type :: "string option \<Rightarrow> string" where
  "detect_device_type ua_opt =
     (case ua_opt of
        None \<Rightarrow> ''unknown''
      | Some ua \<Rightarrow>
          if ua = [] then ''unknown''
          else let ua' = str_lower ua
               in if some_pattern_in tablet_patterns ua' then ''tablet''
                  else if some_pattern_in mobile_patterns ua' then ''mobile''
                  else ''desktop'')"

section \<open>The store, exceptions and responses\<close>

text \<open>\<open>Conversion\<close>, with the columns that the views read and write.\<close>

record Conversion =
  conversion_id :: nat
  affiliate_link :: nat
  click :: "nat option"
  order_id :: string
  amount :: decimal
  commission_amount :: decimal
  conversion_timestamp :: datetime
  verified :: bool
  conversion_notes :: string

text \<open>
  The durable store behind the ORM: one list of rows per table, in insertion order.
  \<open>insert_failure\<close> is the state of the storage layer for writes: \<open>None\<close> when it
  accepts an INSERT, \<open>Some msg\<close> when it rejects every INSERT with a database error
  whose text is \<open>msg\<close>.
\<close>

record database =
  products :: "Product list"
  affiliate_links :: "AffiliateLink list"
  clicks :: "Click list"
  conversions :: "Conversion list"
  insert_failure :: "string option"

text \<open>
  The Python exceptions that the views raise, catch or let through. \<open>DoesNotExist m\<close>
  and \<open>MultipleObjectsReturned m n\<close> are the exception classes of the model named
  \<open>m\<close> (\<open>n\<close> rows matched); the others carry their message. All of them are
  subclasses of \<open>Exception\<close>, and none is a subclass of another.
\<close>

datatype exn =
    DoesNotExist string
  | MultipleObjectsReturned string nat
  | Http404 string
  | PermissionDenied string
  | ValidationError string
  | DatabaseError string
  | ValueError string
  | AttributeError string
  | DisallowedRedirect string
  | IntegrityError string

text \<open>Decimal notation of a natural number, as \<open>str\<close> and f-strings print it.\<close>

fun str_nat :: "nat \<Rightarrow> string" where
  "str_nat n =
     (if n < 10 then [char_of (48 + n)]
      else str_nat (n div 10) @ [char_of (48 + n mod 10)])"

declare str_nat.simps [simp del]

text \<open>\<open>str(e)\<close>.\<close>

fun exn_str :: "exn \<Rightarrow> string" where
  "exn_str (DoesNotExist m) = m @ '' matching query does not exist.''"
| "exn_str (MultipleObjectsReturned m n) =
     ''get() returned more than one '' @ m @ '' -- it returned ''
       @ (if n < 21 then str_nat n else ''more than 20'') @ ''!''"
| "exn_str (Http404 msg) = msg"
| "exn_str (PermissionDenied msg) = msg"
| "exn_str (ValidationError msg) = msg"
| "exn_str (DatabaseError msg) = msg"
| "exn_str (ValueError msg) = msg"
| "exn_str (AttributeError msg) = msg"
| "exn_str (DisallowedRedirect msg) = msg"
| "exn_str (IntegrityError msg) = msg"

text \<open>A Django response: a body with a status, or a redirect (status 302) to a URL.\<close>

datatype HttpResponse = HttpResponse string nat | HttpResponseRedirect string

fun status_code :: "HttpResponse \<Rightarrow> nat" where
  "status_code (HttpResponse body st) = st"
| "status_code (HttpResponseRedirect url) = 302"

text \<open>The value of an optional string when it is truthy: neither \<open>None\<close> nor empty.\<close>

definition truthy :: "string option \<Rightarrow> string option" where
  "truthy v = (case v of None \<Rightarrow> None | Some s \<Rightarrow> if s = [] then None else Some s)"

section \<open>The click endpoint\<close>

text \<open>\<open>AffiliateLink.objects.get(code=c, is_active=True)\<close> and Django's
  \<open>get_object_or_404\<close> around it, which turns the model's \<open>DoesNotExist\<close> into
  \<open>Http404\<close> and lets every other exception through.\<close>

definition AffiliateLink_objects_get :: "database \<Rightarrow> string \<Rightarrow> exn + AffiliateLink" where
  "AffiliateLink_objects_get db c =
     (case filter (\<lambda>l. code l = c \<and> is_active l) (affiliate_links db) of
        [] \<Rightarrow> Inl (DoesNotExist ''AffiliateLink'')
      | [l] \<Rightarrow> Inr l
      | l # l' # ls \<Rightarrow> Inl (MultipleObjectsReturned ''AffiliateLink'' (Suc (Suc (length ls)))))"

definition get_object_or_404 :: "database \<Rightarrow> string \<Rightarrow> exn + AffiliateLink" where
  "get_object_or_404 db c =
     (case AffiliateLink_objects_get db c of
        Inr l \<Rightarrow> Inr l
      | Inl e \<Rightarrow>
          (case e of
             DoesNotExist m \<Rightarrow> Inl (Http404 (''No '' @ m @ '' matches the given query.''))
           | _ \<Rightarrow> Inl e))"

text \<open>Following the foreign key \<open>link.product\<close>.\<close>

definition Product_objects_get :: "database \<Rightarrow> nat \<Rightarrow> exn + Product" where
  "Product_objects_get db pk =
     (case filter (\<lambda>p. product_id p = pk) (products db) of
        [] \<Rightarrow> Inl (DoesNotExist ''Product'')
      | p # ps \<Rightarrow> Inr p)"

text \<open>The request headers that the click endpoint reads from \<open>request.META\<close>.\<close>

record request_META =
  HTTP_X_FORWARDED_FOR :: "string option"
  REMOTE_ADDR :: "string option"
  HTTP_USER_AGENT :: "string option"
  HTTP_REFERER :: "string option"

definition get_client_ip :: "request_META \<Rightarrow> string option" where
  "get_client_ip META =
     (case truthy (HTTP_X_FORWARDED_FOR META) of
        Some x_forwarded_for \<Rightarrow> Some (takeWhile (\<lambda>ch. ch \<noteq> CHR '','') x_forwarded_for)
      | None \<Rightarrow> REMOTE_ADDR META)"

text \<open>\<open>Click.objects.create\<close>: the row is appended unless the store rejects the
  INSERT.\<close>

definition Click_objects_create :: "database \<Rightarrow> Click \<Rightarrow> exn + database" where
  "Click_objects_create db row =
     (case insert_failure db of
        Some msg \<Rightarrow> Inl (DatabaseError msg)
      | None \<Rightarrow> Inr (db\<lparr>clicks := clicks db @ [row]\<rparr>))"

text \<open>The \<open>if/elif/else\<close> that picks the redirect URL. \<open>link.product\<close> is only
  read when the link has no landing URL.\<close>

definition redirect_url :: "database \<Rightarrow> AffiliateLink \<Rightarrow> exn + string" where
  "redirect_url db link =
     (case truthy (landing_url link) of
        Some url \<Rightarrow> Inr url
      | None \<Rightarrow>
          (case Product_objects_get db (product link) of
             Inl e \<Rightarrow> Inl e
           | Inr p \<Rightarrow>
               (case truthy (external_url p) of
                  Some url \<Rightarrow> Inr url
                | None \<Rightarrow> Inr (''/api/products/'' @ str_nat (product_id p) @ ''/''))))"

text \<open>
  \<open>django.shortcuts.redirect\<close> is library code: it resolves the text it is given
  against the names of the project's URL patterns, builds the redirect response, and
  raises when it refuses the text. The view is modelled for every such function
  \<open>rd\<close>, from the text to the response built or the exception raised.

  \<open>redirect\<close> below is that function on a text that names no URL pattern and has a
  well-formed host part: the text itself is the target, and
  \<open>HttpResponseRedirect\<close> refuses, with \<open>DisallowedRedirect\<close>, a target whose
  scheme is neither empty nor one of \<open>http\<close>, \<open>https\<close>, \<open>ftp\<close>.
  \<open>url_scheme\<close> is the scheme that \<open>urlsplit\<close> finds: leading control characters
  and spaces are dropped, tabs and line breaks removed, and the text before the first
  colon is the scheme, in lower case, when it starts with an ASCII letter and consists
  of ASCII letters, digits, \<open>+\<close>, \<open>-\<close> and \<open>.\<close>.
\<close>

definition scheme_char :: "char \<Rightarrow> bool" where
  "scheme_char c =
     (let n = (of_char c :: nat)
      in (97 \<le> n \<and> n \<le> 122) \<or> (65 \<le> n \<and> n \<le> 90) \<or> (48 \<le> n \<and> n \<le> 57)
         \<or> c = CHR ''+'' \<or> c = CHR ''-'' \<or> c = CHR ''.'')"

definition ascii_letter :: "char \<Rightarrow> bool" where
  "ascii_letter c =
     (let n = (of_char c :: nat) in (97 \<le> n \<and> n \<le> 122) \<or> (65 \<le> n \<and> n \<le> 90))"

definition url_scheme :: "string \<Rightarrow> string" where
  "url_scheme target =
     (let url = filter (\<lambda>c. (of_char c :: nat) \<notin> {9, 10, 13})
                  (dropWhile (\<lambda>c. (of_char c :: nat) \<le> 32) target);
          candidate = takeWhile (\<lambda>c. c \<noteq> CHR '':'') url
      in if CHR '':'' \<in> set url \<and> candidate \<noteq> [] \<and> ascii_letter (hd url)
            \<and> list_all scheme_char candidate
         then str_lower candidate else [])"

definition allowed_schemes :: "string list" where
  "allowed_schemes = [''http'', ''https'', ''ftp'']"

definition redirect :: "string \<Rightarrow> exn + HttpResponse" where
  "redirect target =
     (let scheme = url_scheme target
      in if scheme \<noteq> [] \<and> scheme \<notin> set allowed_schemes
         then Inl (DisallowedRedirect
                     (''Unsafe redirect to URL with protocol '' @ [CHR 0x27] @ scheme @ [CHR 0x27]))
         else Inr (HttpResponseRedirect target))"

text \<open>The body of the \<open>try\<close> block of \<open>track_click\<close>: the response it returns
  or the exception it raises, and the store it leaves. \<open>now\<close> is
  \<open>timezone.now()\<close>, \<open>rd\<close> is \<open>redirect\<close>.\<close>

definition track_click_try ::
    "(string \<Rightarrow> exn + HttpResponse) \<Rightarrow> datetime \<Rightarrow> database \<Rightarrow> request_META \<Rightarrow> string
      \<Rightarrow> (exn + HttpResponse) \<times> database" where
  "track_click_try rd now db META c =
     (case get_object_or_404 db c of
        Inl e \<Rightarrow> (Inl e, db)
      | Inr link \<Rightarrow>
          if (case expires_at link of None \<Rightarrow> False | Some t \<Rightarrow> t < now)
          then (Inr (HttpResponse ''This affiliate link has expired.'' 410), db)
          else
            let ip = get_client_ip META;
                ua = (case HTTP_USER_AGENT META of None \<Rightarrow> [] | Some v \<Rightarrow> v);
                rf = (case HTTP_REFERER META of None \<Rightarrow> [] | Some v \<Rightarrow> v);
                dt = detect_device_type (Some ua)
            in case Click_objects_create db
                      \<lparr>click_affiliate_link = link_id link, ip_address = ip, user_agent = ua,
                       referrer = rf, device_type = dt, click_timestamp = now\<rparr> of
                 Inl e \<Rightarrow> (Inl e, db)
               | Inr db' \<Rightarrow>
                   (case redirect_url db' link of
                      Inl e \<Rightarrow> (Inl e, db')
                    | Inr url \<Rightarrow>
                        (case rd url of
                           Inl e \<Rightarrow> (Inl e, db')
                         | Inr response \<Rightarrow> (Inr response, db'))))"

text \<open>\<open>track_click\<close> of \<open>tracking/views.py\<close>: the \<open>try\<close> block with its two
  handlers, \<open>except AffiliateLink.DoesNotExist\<close> first and \<open>except Exception\<close>
  second.\<close>

definition track_click ::
    "(string \<Rightarrow> exn + HttpResponse) \<Rightarrow> datetime \<Rightarrow> database \<Rightarrow> request_META \<Rightarrow> string
      \<Rightarrow> HttpResponse \<times> database" where
  "track_click rd now db META c =
     (case track_click_try rd now db META c of
        (Inr response, db') \<Rightarrow> (response, db')
      | (Inl e, db') \<Rightarrow>
          (if e = DoesNotExist ''AffiliateLink''
           then HttpResponse ''Invalid affiliate link.'' 404
           else HttpResponse (''Error processing click: '' @ exn_str e) 500,
           db'))"

text \<open>The row that \<open>track_click\<close> hands to \<open>Click.objects.create\<close>.\<close>

definition new_click :: "datetime \<Rightarrow> request_META \<Rightarrow> AffiliateLink \<Rightarrow> Click" where
  "new_click now META link =
     \<lparr>click_affiliate_link = link_id link, ip_address = get_client_ip META,
      user_agent = (case HTTP_USER_AGENT META of None \<Rightarrow> [] | Some v \<Rightarrow> v),
      referrer = (case HTTP_REFERER META of None \<Rightarrow> [] | Some v \<Rightarrow> v),
      device_type =
        detect_device_type (Some (case HTTP_USER_AGENT META of None \<Rightarrow> [] | Some v \<Rightarrow> v)),
      click_timestamp = now\<rparr>"

section \<open>The conversions list\<close>

text \<open>Following the foreign keys \<open>conversion.affiliate_link\<close> and
  \<open>affiliate_link.product\<close> in a queryset filter: a row whose target is missing
  matches no join.\<close>

definition link_by_id :: "database \<Rightarrow> nat \<Rightarrow> AffiliateLink option" where
  "link_by_id db pk = find (\<lambda>l. link_id l = pk) (affiliate_links db)"

definition product_by_id :: "database \<Rightarrow> nat \<Rightarrow> Product option" where
  "product_by_id db pk = find (\<lambda>p. product_id p = pk) (products db)"

text \<open>The query parameters that \<open>ConversionViewSet.get_queryset\<close> reads, after
  Django has parsed their text: \<open>None\<close> is an absent (or, for all but
  \<open>verified\<close>, empty) parameter.\<close>

record conversion_query_params =
  param_affiliate_link :: "nat option"
  param_verified :: "string option"
  param_start_date :: "datetime option"
  param_end_date :: "datetime option"

text \<open>The role-based part of \<open>ConversionViewSet.get_queryset\<close>: the
  \<open>if is_affiliate / elif is_merchant\<close> with no \<open>else\<close>.\<close>

definition role_filter :: "database \<Rightarrow> User \<Rightarrow> Conversion list \<Rightarrow> Conversion list" where
  "role_filter db user queryset =
     (if is_affiliate user
      then filter (\<lambda>c. case link_by_id db (affiliate_link c) of
                          None \<Rightarrow> False
                        | Some l \<Rightarrow> affiliate l = user_id user) queryset
      else if is_merchant user
      then filter (\<lambda>c. case link_by_id db (affiliate_link c) of
                          None \<Rightarrow> False
                        | Some l \<Rightarrow>
                            (case product_by_id db (product l) of
                               None \<Rightarrow> False
                             | Some p \<Rightarrow> merchant p = user_id user)) queryset
      else queryset)"

text \<open>The filters by query parameter, in the order of the source.\<close>

definition query_param_filters ::
    "conversion_query_params \<Rightarrow> Conversion list \<Rightarrow> Conversion list" where
  "query_param_filters params queryset =
     (let q1 = (case param_affiliate_link params of
                  None \<Rightarrow> queryset
                | Some pk \<Rightarrow> filter (\<lambda>c. affiliate_link c = pk) queryset);
          q2 = (case param_verified params of
                  None \<Rightarrow> q1
                | Some v \<Rightarrow> filter (\<lambda>c. verified c = (str_lower v = ''true'')) q1);
          q3 = (case param_start_date params of
                  None \<Rightarrow> q2
                | Some t \<Rightarrow> filter (\<lambda>c. t \<le> conversion_timestamp c) q2)
      in case param_end_date params of
           None \<Rightarrow> q3
         | Some t \<Rightarrow> filter (\<lambda>c. conversion_timestamp c \<le> t) q3)"

text \<open>\<open>ConversionViewSet.get_queryset\<close>; \<open>order_by('-timestamp')\<close> is a sort by
  descending timestamp (rows with equal timestamps keep their order).\<close>

definition ConversionViewSet_get_queryset ::
    "database \<Rightarrow> User \<Rightarrow> conversion_query_params \<Rightarrow> Conversion list" where
  "ConversionViewSet_get_queryset db user params =
     sort_key (\<lambda>c. - conversion_timestamp c)
       (query_param_filters params (role_filter db user (conversions db)))"

definition no_query_params :: conversion_query_params where
  "no_query_params =
     \<lparr>param_affiliate_link = None, param_verified = None, param_start_date = None,
      param_end_date = None\<rparr>"

section \<open>Product statistics\<close>

text \<open>
  Python's \<open>Decimal\<close> division in the default context: the exact quotient rounded
  to 28 significant digits, ties to even. \<open>adjusted x\<close> is the exponent of the
  leading digit of \<open>x \<noteq> 0\<close>, that is \<open>\<lfloor>log\<^sub>1\<^sub>0 \<bar>x\<bar>\<rfloor>\<close>.
\<close>

fun digits10 :: "nat \<Rightarrow> nat" where
  "digits10 n = (if n < 10 then 1 else Suc (digits10 (n div 10)))"

declare digits10.simps [simp del]

definition adjusted :: "rat \<Rightarrow> int" where
  "adjusted x =
     (let (a, b) = quotient_of \<bar>x\<bar>;
          e = int (digits10 (nat a)) - int (digits10 (nat b))
      in if 10 powi e \<le> \<bar>x\<bar> then e else e - 1)"

definition round_half_even :: "rat \<Rightarrow> int" where
  "round_half_even x =
     (let f = \<lfloor>x\<rfloor>; d = x - of_int f
      in if d < 1 / 2 then f else if 1 / 2 < d then f + 1 else if even f then f else f + 1)"

definition context_round :: "rat \<Rightarrow> rat" where
  "context_round x =
     (if x = 0 then 0
      else let s = 27 - adjusted x
           in of_int (round_half_even (x * 10 powi s)) / 10 powi s)"

definition Decimal_truediv :: "decimal \<Rightarrow> decimal \<Rightarrow> decimal" where
  "Decimal_truediv a b = context_round (a / b)"

text \<open>The aggregate \<open>Sum(column)\<close> of a queryset, \<open>None\<close> over no rows, and the
  value of \<open>aggregate or 0\<close>.\<close>

definition aggregate_Sum :: "decimal list \<Rightarrow> decimal option" where
  "aggregate_Sum column = (if column = [] then None else Some (sum_list column))"

definition or_0 :: "decimal option \<Rightarrow> decimal" where
  "or_0 v = (case v of None \<Rightarrow> 0 | Some d \<Rightarrow> if d = 0 then 0 else d)"

record product_stats =
  total_products :: nat
  active_products :: nat
  average_price :: decimal
  average_commission_rate :: decimal

text \<open>The queryset of \<open>ProductViewSet.stats\<close>: a merchant's own products, for
  everybody else the active products.\<close>

definition stats_queryset :: "database \<Rightarrow> User \<Rightarrow> Product list" where
  "stats_queryset db user =
     (if is_merchant user then filter (\<lambda>p. merchant p = user_id user) (products db)
      else filter product_is_active (products db))"

text \<open>The \<open>stats\<close> dictionary that is built on a cache miss, with the division
  that follows its construction.\<close>

definition compute_stats :: "database \<Rightarrow> User \<Rightarrow> product_stats" where
  "compute_stats db user =
     (let queryset = stats_queryset db user;
          stats = \<lparr>total_products = length queryset,
                   active_products = length (filter product_is_active queryset),
                   average_price = or_0 (aggregate_Sum (map price queryset)),
                   average_commission_rate =
                     or_0 (aggregate_Sum (map commission_rate queryset))\<rparr>
      in if 0 < total_products stats
         then stats\<lparr>average_commission_rate :=
                      Decimal_truediv (average_commission_rate stats)
                        (of_nat (total_products stats))\<rparr>
         else stats)"

text \<open>\<open>ProductViewSet.stats\<close>: the cached entry of the user if there is one,
  otherwise the computed dictionary, which is stored under the user's key. The cache
  is a map from keys to entries (the expiry of entries is not modelled: an expired
  entry is an absent one).\<close>

definition ProductViewSet_stats ::
    "(string \<rightharpoonup> product_stats) \<Rightarrow> database \<Rightarrow> User
      \<Rightarrow> product_stats \<times> (string \<rightharpoonup> product_stats)" where
  "ProductViewSet_stats cache db user =
     (let cache_key = ''product_stats_'' @ str_nat (user_id user)
      in case cache cache_key of
           Some cached_stats \<Rightarrow> (cached_stats, cache)
         | None \<Rightarrow>
             (let stats = compute_stats db user
              in (stats, cache(cache_key \<mapsto> stats))))"

section \<open>The link table\<close>

text \<open>The fields of \<open>AffiliateLinkCreateSerializer\<close>, as submitted: the primary key
  of the product and the three optional settings.\<close>

record link_create_data =
  data_product :: nat
  data_custom_slug :: "string option"
  data_landing_url :: "string option"
  data_expires_at :: "datetime option"

text \<open>What the storage layer and the \<open>code\<close> column's generator supply for a new
  row: its primary key and its code.\<close>

record generated_values =
  new_id :: nat
  new_code :: string

text \<open>The field \<open>product\<close> of the serializer: the primary key is looked up, then
  \<open>validate_product\<close> refuses an inactive product.\<close>

definition validate_product :: "database \<Rightarrow> nat \<Rightarrow> exn + Product" where
  "validate_product db pk =
     (case product_by_id db pk of
        None \<Rightarrow>
          Inl (ValidationError (''Invalid pk \"'' @ str_nat pk @ ''\" - object does not exist.''))
      | Some p \<Rightarrow>
          if \<not> product_is_active p
          then Inl (ValidationError ''Cannot create links for inactive products.'')
          else Inr p)"

text \<open>\<open>AffiliateLinkCreateSerializer.validate\<close>: the duplicate check
  \<open>AffiliateLink.objects.filter(affiliate=..., product=...).exists()\<close>.\<close>

definition validate_link :: "database \<Rightarrow> User \<Rightarrow> Product \<Rightarrow> exn + Product" where
  "validate_link db user p =
     (if filter (\<lambda>l. affiliate l = user_id user \<and> product l = product_id p)
           (affiliate_links db) \<noteq> []
      then Inl (ValidationError ''You already have an affiliate link for this product.'')
      else Inr p)"

text \<open>An INSERT into the link table: the row is appended unless the store rejects the
  INSERT, or holds a row with the same primary key already.\<close>

definition AffiliateLink_objects_create ::
    "database \<Rightarrow> AffiliateLink \<Rightarrow> exn + database" where
  "AffiliateLink_objects_create db row =
     (case insert_failure db of
        Some msg \<Rightarrow> Inl (DatabaseError msg)
      | None \<Rightarrow>
          if link_id row \<in> set (map link_id (affiliate_links db))
          then Inl (IntegrityError ''UNIQUE constraint failed: tracking_affiliatelink.id'')
          else Inr (db\<lparr>affiliate_links := affiliate_links db @ [row]\<rparr>))"

text \<open>
  The views raise \<open>permissions.PermissionDenied(...)\<close>, where \<open>permissions\<close> is the
  module \<open>rest_framework.permissions\<close>. That module has no such name (the exception
  class lives in \<open>rest_framework.exceptions\<close>), so evaluating the expression raises
  \<open>AttributeError\<close>.
\<close>

definition permissions_PermissionDenied :: exn where
  "permissions_PermissionDenied =
     AttributeError (''module '' @ [CHR 0x27] @ ''rest_framework.permissions'' @ [CHR 0x27]
                     @ '' has no attribute '' @ [CHR 0x27] @ ''PermissionDenied'' @ [CHR 0x27])"

text \<open>
  \<open>POST /links\<close>: the \<open>create\<close> action of \<open>AffiliateLinkViewSet\<close>. The
  framework validates the serializer first (fields, then \<open>validate\<close>) and calls
  \<open>perform_create\<close> afterwards, which does not save for users who are not
  affiliates. The new row is active and carries the generated key and code.
\<close>

definition AffiliateLinkViewSet_create ::
    "database \<Rightarrow> User \<Rightarrow> link_create_data \<Rightarrow> generated_values
      \<Rightarrow> (exn + AffiliateLink) \<times> database" where
  "AffiliateLinkViewSet_create db user d g =
     (case validate_product db (data_product d) of
        Inl e \<Rightarrow> (Inl e, db)
      | Inr p \<Rightarrow>
          (case validate_link db user p of
             Inl e \<Rightarrow> (Inl e, db)
           | Inr p' \<Rightarrow>
               if \<not> is_affiliate user
               then (Inl permissions_PermissionDenied, db)
               else
                 let row = \<lparr>link_id = new_id g, code = new_code g, affiliate = user_id user,
                            product = product_id p', custom_slug = data_custom_slug d,
                            landing_url = data_landing_url d, is_active = True,
                            expires_at = data_expires_at d\<rparr>
                 in case AffiliateLink_objects_create db row of
                      Inl e \<Rightarrow> (Inl e, db)
                    | Inr db' \<Rightarrow> (Inr row, db')))"

text \<open>
  Modelled from the spec: \<open>Meta.unique_together\<close> of the model \<open>AffiliateLink\<close>,
  which is declared in \<open>tracking/models.py\<close>, a file that is not among the sources.
  The specification's data model gives the invariant of the table: at most one
  AffiliateLink per (affiliate, product) pair.
\<close>

definition AffiliateLink_unique_together :: "string list list" where
  "AffiliateLink_unique_together = [[''affiliate'', ''product'']]"

text \<open>The field lists of the two link serializers; the fields of a model serializer
  that a request can set, which are those of \<open>Meta.fields\<close> that are neither in
  \<open>Meta.read_only_fields\<close> nor declared read-only in the class body; and the sets of
  \<open>unique_together\<close> for which a model serializer builds a
  \<open>UniqueTogetherValidator\<close>: those whose columns are all among its writable
  fields.\<close>

definition AffiliateLinkSerializer_fields :: "string list" where
  "AffiliateLinkSerializer_fields =
     [''id'', ''code'', ''affiliate'', ''affiliate_info'', ''product'', ''product_info'',
      ''custom_slug'', ''landing_url'', ''is_active'', ''created_at'', ''updated_at'',
      ''expires_at'', ''click_count'', ''conversion_count'', ''conversion_rate'',
      ''tracking_url'']"

definition AffiliateLinkSerializer_read_only_fields :: "string list" where
  "AffiliateLinkSerializer_read_only_fields = [''id'', ''code'', ''created_at'', ''updated_at'']"

definition AffiliateLinkSerializer_declared_read_only :: "string list" where
  "AffiliateLinkSerializer_declared_read_only =
     [''affiliate_info'', ''product_info'', ''click_count'', ''conversion_count'',
      ''conversion_rate'', ''tracking_url'']"

definition AffiliateLinkCreateSerializer_fields :: "string list" where
  "AffiliateLinkCreateSerializer_fields =
     [''product'', ''custom_slug'', ''landing_url'', ''expires_at'']"

definition writable_fields :: "string list \<Rightarrow> string list \<Rightarrow> string list \<Rightarrow> string list" where
  "writable_fields meta_fields read_only declared =
     filter (\<lambda>f. f \<notin> set read_only \<and> f \<notin> set declared) meta_fields"

definition unique_together_validators :: "string list \<Rightarrow> string list list" where
  "unique_together_validators writable =
     filter (\<lambda>columns. set columns \<subseteq> set writable) AffiliateLink_unique_together"

text \<open>The query parameters that \<open>AffiliateLinkViewSet.get_queryset\<close> reads
  (\<open>search\<close> is taken to be absent), and the queryset; its order is not modelled,
  only the lookup by primary key reads it here.\<close>

record link_query_params =
  link_param_product :: "nat option"
  link_param_is_active :: "string option"

definition AffiliateLinkViewSet_get_queryset ::
    "database \<Rightarrow> User \<Rightarrow> link_query_params \<Rightarrow> AffiliateLink list" where
  "AffiliateLinkViewSet_get_queryset db user params =
     (let q0 = affiliate_links db;
          q1 = (if is_affiliate user then filter (\<lambda>l. affiliate l = user_id user) q0 else q0);
          q2 = (case link_param_product params of
                  None \<Rightarrow> q1
                | Some pk \<Rightarrow> filter (\<lambda>l. product l = pk) q1)
      in case link_param_is_active params of
           None \<Rightarrow> q2
         | Some v \<Rightarrow> filter (\<lambda>l. is_active l = (str_lower v = ''true'')) q2)"

definition AffiliateLinkViewSet_get_object ::
    "database \<Rightarrow> User \<Rightarrow> link_query_params \<Rightarrow> nat \<Rightarrow> exn + AffiliateLink" where
  "AffiliateLinkViewSet_get_object db user params pk =
     (case find (\<lambda>l. link_id l = pk) (AffiliateLinkViewSet_get_queryset db user params) of
        None \<Rightarrow> Inl (Http404 ''No AffiliateLink matches the given query.'')
      | Some l \<Rightarrow> Inr l)"

text \<open>
  The writable fields of \<open>AffiliateLinkSerializer\<close> as a \<open>PUT\<close> or \<open>PATCH\<close>
  request submits them: \<open>None\<close> is a field that the request leaves out;
  \<open>put_partial\<close> tells \<open>PATCH\<close> from \<open>PUT\<close>. The affiliate submitted is the
  primary key of an existing user.
\<close>

record link_update_data =
  put_partial :: bool
  put_affiliate :: "nat option"
  put_product :: "nat option"
  put_custom_slug :: "string option option"
  put_landing_url :: "string option option"
  put_is_active :: "bool option"
  put_expires_at :: "datetime option option"

text \<open>
  Validation of an update by \<open>AffiliateLinkSerializer\<close>, which has no \<open>validate\<close>
  method of its own. A \<open>PUT\<close> must carry the two foreign keys; the product must
  exist; the \<open>UniqueTogetherValidator\<close> looks for another row (the instance itself
  is excluded) with the affiliate and product that the row would have, a field left
  out keeping the value of the instance. The result is the row to save.
\<close>

definition AffiliateLinkSerializer_is_valid ::
    "database \<Rightarrow> AffiliateLink \<Rightarrow> link_update_data \<Rightarrow> exn + AffiliateLink" where
  "AffiliateLinkSerializer_is_valid db instance d =
     (if \<not> put_partial d \<and> (put_affiliate d = None \<or> put_product d = None)
      then Inl (ValidationError ''This field is required.'')
      else
        case (case put_product d of
                None \<Rightarrow> Inr (product instance)
              | Some pk \<Rightarrow>
                  (case product_by_id db pk of
                     None \<Rightarrow>
                       Inl (ValidationError
                              (''Invalid pk \"'' @ str_nat pk @ ''\" - object does not exist.''))
                   | Some found \<Rightarrow> Inr pk)) of
          Inl e \<Rightarrow> Inl e
        | Inr p \<Rightarrow>
        let a = (case put_affiliate d of None \<Rightarrow> affiliate instance | Some v \<Rightarrow> v)
        in if [''affiliate'', ''product'']
                \<in> set (unique_together_validators
                          (writable_fields AffiliateLinkSerializer_fields
                             AffiliateLinkSerializer_read_only_fields
                             AffiliateLinkSerializer_declared_read_only))
              \<and> filter (\<lambda>l. affiliate l = a \<and> product l = p \<and> link_id l \<noteq> link_id instance)
                   (affiliate_links db) \<noteq> []
           then Inl (ValidationError ''The fields affiliate, product must make a unique set.'')
           else Inr (instance
                  \<lparr>affiliate := a, product := p,
                   custom_slug :=
                     (case put_custom_slug d of None \<Rightarrow> custom_slug instance | Some v \<Rightarrow> v),
                   landing_url :=
                     (case put_landing_url d of None \<Rightarrow> landing_url instance | Some v \<Rightarrow> v),
                   is_active :=
                     (case put_is_active d of None \<Rightarrow> is_active instance | Some v \<Rightarrow> v),
                   expires_at :=
                     (case put_expires_at d of None \<Rightarrow> expires_at instance | Some v \<Rightarrow> v)\<rparr>))"

text \<open>\<open>instance.save()\<close> of an existing row is an UPDATE of the row with its primary
  key; \<open>instance.delete()\<close> removes that row (what happens to the clicks and
  conversions that refer to it is declared in the missing model and not followed
  here).\<close>

definition AffiliateLink_save :: "database \<Rightarrow> AffiliateLink \<Rightarrow> database" where
  "AffiliateLink_save db row =
     db\<lparr>affiliate_links :=
          map (\<lambda>l. if link_id l = link_id row then row else l) (affiliate_links db)\<rparr>"

definition AffiliateLink_delete :: "database \<Rightarrow> nat set \<Rightarrow> database" where
  "AffiliateLink_delete db selected =
     db\<lparr>affiliate_links := filter (\<lambda>l. link_id l \<notin> selected) (affiliate_links db)\<rparr>"

text \<open>
  \<open>PUT\<close> and \<open>PATCH /links/<pk>\<close>: the framework fetches the link and validates
  the data, then \<open>perform_update\<close> fetches the link again and saves when the user is
  its affiliate or a superuser.
\<close>

definition AffiliateLinkViewSet_update ::
    "database \<Rightarrow> User \<Rightarrow> link_query_params \<Rightarrow> nat \<Rightarrow> link_update_data
      \<Rightarrow> (exn + AffiliateLink) \<times> database" where
  "AffiliateLinkViewSet_update db user params pk d =
     (case AffiliateLinkViewSet_get_object db user params pk of
        Inl e \<Rightarrow> (Inl e, db)
      | Inr instance \<Rightarrow>
          (case AffiliateLinkSerializer_is_valid db instance d of
             Inl e \<Rightarrow> (Inl e, db)
           | Inr row \<Rightarrow>
               (case AffiliateLinkViewSet_get_object db user params pk of
                  Inl e \<Rightarrow> (Inl e, db)
                | Inr link \<Rightarrow>
                    if affiliate link \<noteq> user_id user \<and> \<not> is_superuser user
                    then (Inl permissions_PermissionDenied, db)
                    else (Inr row, AffiliateLink_save db row))))"

text \<open>\<open>DELETE /links/<pk>\<close>: \<open>perform_destroy\<close> with the same test.\<close>

definition AffiliateLinkViewSet_destroy ::
    "database \<Rightarrow> User \<Rightarrow> link_query_params \<Rightarrow> nat \<Rightarrow> (exn + unit) \<times> database" where
  "AffiliateLinkViewSet_destroy db user params pk =
     (case AffiliateLinkViewSet_get_object db user params pk of
        Inl e \<Rightarrow> (Inl e, db)
      | Inr instance \<Rightarrow>
          if affiliate instance \<noteq> user_id user \<and> \<not> is_superuser user
          then (Inl permissions_PermissionDenied, db)
          else (Inr (), AffiliateLink_delete db {link_id instance}))"

text \<open>The admin actions \<open>activate_links\<close> and \<open>deactivate_links\<close>:
  \<open>queryset.update(is_active=...)\<close> on the selected rows.\<close>

definition update_is_active :: "database \<Rightarrow> nat set \<Rightarrow> bool \<Rightarrow> database" where
  "update_is_active db selected b =
     db\<lparr>affiliate_links :=
          map (\<lambda>l. if link_id l \<in> selected then l\<lparr>is_active := b\<rparr> else l)
            (affiliate_links db)\<rparr>"

text \<open>
  The add and change forms of \<open>AffiliateLinkAdmin\<close>, whose fieldsets offer the
  affiliate, the product, the active flag, the slug, the landing URL and the expiry
  (the code is read-only and generated). A model form checks the model's
  \<open>unique_together\<close> sets whose columns are all in the form, against the other
  rows; a form with an error is shown again and nothing is saved. The result is the
  store after the request.
\<close>

record link_form_data =
  form_affiliate :: nat
  form_product :: nat
  form_is_active :: bool
  form_custom_slug :: "string option"
  form_landing_url :: "string option"
  form_expires_at :: "datetime option"

definition AffiliateLinkAdmin_form_fields :: "string list" where
  "AffiliateLinkAdmin_form_fields =
     [''affiliate'', ''product'', ''is_active'', ''custom_slug'', ''landing_url'', ''expires_at'']"

definition form_is_valid :: "database \<Rightarrow> nat option \<Rightarrow> link_form_data \<Rightarrow> bool" where
  "form_is_valid db instance_pk f =
     (product_by_id db (form_product f) \<noteq> None
      \<and> \<not> ([''affiliate'', ''product'']
               \<in> set (unique_together_validators AffiliateLinkAdmin_form_fields)
            \<and> filter (\<lambda>l. affiliate l = form_affiliate f \<and> product l = form_product f
                           \<and> Some (link_id l) \<noteq> instance_pk)
                 (affiliate_links db) \<noteq> []))"

definition AffiliateLinkAdmin_add :: "database \<Rightarrow> link_form_data \<Rightarrow> generated_values \<Rightarrow> database" where
  "AffiliateLinkAdmin_add db f g =
     (if \<not> form_is_valid db None f then db
      else case AffiliateLink_objects_create db
                  \<lparr>link_id = new_id g, code = new_code g, affiliate = form_affiliate f,
                   product = form_product f, custom_slug = form_custom_slug f,
                   landing_url = form_landing_url f, is_active = form_is_active f,
                   expires_at = form_expires_at f\<rparr> of
             Inl e \<Rightarrow> db
           | Inr db' \<Rightarrow> db')"

definition AffiliateLinkAdmin_change :: "database \<Rightarrow> nat \<Rightarrow> link_form_data \<Rightarrow> database" where
  "AffiliateLinkAdmin_change db pk f =
     (case find (\<lambda>l. link_id l = pk) (affiliate_links db) of
        None \<Rightarrow> db
      | Some instance \<Rightarrow>
          if \<not> form_is_valid db (Some pk) f then db
          else AffiliateLink_save db
                 (instance\<lparr>affiliate := form_affiliate f, product := form_product f,
                           custom_slug := form_custom_slug f,
                           landing_url := form_landing_url f,
                           is_active := form_is_active f,
                           expires_at := form_expires_at f\<rparr>))"

text \<open>The status with which the REST framework answers an exception that leaves a
  view: 400, 403 and 404 for its own three, 500 for any other.\<close>

fun exception_status :: "exn \<Rightarrow> nat" where
  "exception_status (ValidationError msg) = 400"
| "exception_status (PermissionDenied msg) = 403"
| "exception_status (Http404 msg) = 404"
| "exception_status e = 500"

text \<open>
  The requests that change the link table, and a run of such requests: the four
  actions of the API and of the admin above, the admin's two forms, and the removal of
  rows, which is what the admin's delete views and the deletion of a product or of a
  user do to the table.
\<close>

datatype link_request =
    Create User link_create_data generated_values
  | Update User link_query_params nat link_update_data
  | Destroy User link_query_params nat
  | Activate "nat set"
  | Deactivate "nat set"
  | Admin_add link_form_data generated_values
  | Admin_change nat link_form_data
  | Removal "nat set"

fun handle :: "database \<Rightarrow> link_request \<Rightarrow> database" where
  "handle db (Create user d g) = snd (AffiliateLinkViewSet_create db user d g)"
| "handle db (Update user params pk d) = snd (AffiliateLinkViewSet_update db user params pk d)"
| "handle db (Destroy user params pk) = snd (AffiliateLinkViewSet_destroy db user params pk)"
| "handle db (Activate selected) = update_is_active db selected True"
| "handle db (Deactivate selected) = update_is_active db selected False"
| "handle db (Admin_add f g) = AffiliateLinkAdmin_add db f g"
| "handle db (Admin_change pk f) = AffiliateLinkAdmin_change db pk f"
| "handle db (Removal selected) = AffiliateLink_delete db selected"

definition run :: "database \<Rightarrow> link_request list \<Rightarrow> database" where
  "run db requests = foldl handle db requests"

text \<open>The uniqueness invariant: no two rows of the link table have the same affiliate
  and product. \<open>primary_keys\<close> says that no two rows have the same primary key, as
  in every table.\<close>

definition one_link_per_pair :: "database \<Rightarrow> bool" where
  "one_link_per_pair db = distinct (map (\<lambda>l. (affiliate l, product l)) (affiliate_links db))"

definition primary_keys :: "database \<Rightarrow> bool" where
  "primary_keys db = distinct (map link_id (affiliate_links db))"

text \<open>Both properties on the list of rows.\<close>

definition pair_of :: "AffiliateLink \<Rightarrow> nat \<times> nat" where
  "pair_of l = (affiliate l, product l)"

definition table_ok :: "AffiliateLink list \<Rightarrow> bool" where
  "table_ok ls = (distinct (map link_id ls) \<and> distinct (map pair_of ls))"

section \<open>Recording conversions\<close>

text \<open>A response of the REST framework: its status and its body, which is either the
  dictionary \<open>{'error': message}\<close> or serialized data.\<close>

datatype 'a response_body = Error string | Data 'a








text \<open>The field lists of the two conversion serializers, and the fields of a model
  serializer that a request can set: those of \<open>Meta.fields\<close> that are neither in
  \<open>Meta.read_only_fields\<close> nor declared read-only in the class body.\<close>

definition ConversionSerializer_fields :: "string list" where
  "ConversionSerializer_fields =
     [''id'', ''affiliate_link'', ''affiliate_link_info'', ''click'', ''click_info'',
      ''order_id'', ''amount'', ''commission_amount'', ''commission_rate'',
      ''currency'', ''timestamp'', ''verified'', ''notes'']"

definition ConversionSerializer_read_only_fields :: "string list" where
  "ConversionSerializer_read_only_fields = [''id'', ''timestamp'', ''commission_amount'']"

definition ConversionSerializer_declared_read_only :: "string list" where
  "ConversionSerializer_declared_read_only =
     [''affiliate_link_info'', ''click_info'', ''commission_rate'']"








definition writable :: "string \<Rightarrow> 'a option \<Rightarrow> 'a option" where
  "writable field v =
     (if field \<in> set (writable_fields ConversionSerializer_fields
                          ConversionSerializer_read_only_fields
                          ConversionSerializer_declared_read_only)
      then v else None)"




section \<open>Updating products\<close>

















section \<open>Example data\<close>

text \<open>A small store used to run the endpoints on concrete requests: two products of
  merchant 2, four links (one with a landing URL, one on a product without external
  URL, one deactivated), and a visitor's request headers.\<close>

definition example_product :: Product where
  "example_product =
     \<lparr>product_id = 7, product_name = ''Lamp'', price = 50, merchant = 2,
      commission_rate = 10, external_url = Some ''https://shop.example/lamp'',
      product_is_active = True\<rparr>"

definition plain_product :: Product where
  "plain_product =
     \<lparr>product_id = 8, product_name = ''Desk'', price = 120, merchant = 2,
      commission_rate = 5, external_url = None, product_is_active = True\<rparr>"

definition example_link :: AffiliateLink where
  "example_link =
     \<lparr>link_id = 1, code = ''123e4567-e89b-12d3-a456-426614174000'', affiliate = 1,
      product = 7, custom_slug = None, landing_url = None, is_active = True,
      expires_at = Some 100\<rparr>"

definition landing_link :: AffiliateLink where
  "landing_link =
     \<lparr>link_id = 2, code = ''9b2d1c3e-5f60-4a7b-8c9d-0e1f2a3b4c5d'', affiliate = 3,
      product = 7, custom_slug = Some ''lamp-deal'',
      landing_url = Some ''https://blog.example/lamp-review'', is_active = True,
      expires_at = None\<rparr>"

definition plain_link :: AffiliateLink where
  "plain_link =
     \<lparr>link_id = 3, code = ''0f8fad5b-d9cb-469f-a165-70867728950e'', affiliate = 1,
      product = 8, custom_slug = None, landing_url = Some [], is_active = True,
      expires_at = None\<rparr>"

definition inactive_link :: AffiliateLink where
  "inactive_link =
     \<lparr>link_id = 4, code = ''7c9e6679-7425-40de-944b-e07fc1f90ae7'', affiliate = 4,
      product = 7, custom_slug = None, landing_url = None, is_active = False,
      expires_at = None\<rparr>"

definition example_db :: database where
  "example_db =
     \<lparr>products = [example_product, plain_product],
      affiliate_links = [example_link, landing_link, plain_link, inactive_link],
      clicks = [], conversions = [], insert_failure = None\<rparr>"

definition example_META :: request_META where
  "example_META =
     \<lparr>HTTP_X_FORWARDED_FOR = Some ''10.0.0.1, 10.0.0.2'', REMOTE_ADDR = Some ''127.0.0.1'',
      HTTP_USER_AGENT = Some ''Mozilla/5.0 (iPhone; CPU iPhone OS 16_0 like Mac OS X)'',
      HTTP_REFERER = None\<rparr>"

text \<open>Two recorded conversions, on links of two different affiliates, and three users:
  the affiliate who owns the first link, the merchant who owns both products, and an
  account whose role column is empty (as \<open>createsuperuser\<close> leaves it).\<close>

definition first_conversion :: Conversion where
  "first_conversion =
     \<lparr>conversion_id = 1, affiliate_link = 1, click = None, order_id = ''A-1'', amount = 50,
      commission_amount = 5, conversion_timestamp = 60, verified = False,
      conversion_notes = []\<rparr>"

definition second_conversion :: Conversion where
  "second_conversion =
     \<lparr>conversion_id = 2, affiliate_link = 2, click = None, order_id = ''A-2'', amount = 80,
      commission_amount = 8, conversion_timestamp = 70, verified = True,
      conversion_notes = []\<rparr>"

definition ledger_db :: database where
  "ledger_db = example_db\<lparr>conversions := [first_conversion, second_conversion]\<rparr>"

definition affiliate_user :: User where
  "affiliate_user =
     \<lparr>user_id = 1, username = ''ann'', role = ''affiliate'', is_superuser = False\<rparr>"

definition merchant_user :: User where
  "merchant_user =
     \<lparr>user_id = 2, username = ''max'', role = ''merchant'', is_superuser = False\<rparr>"

definition staff_user :: User where
  "staff_user = \<lparr>user_id = 9, username = ''root'', role = [], is_superuser = True\<rparr>"

text \<open>A request to create a link for product 7, the values generated for two new rows,
  and the example store before any link exists.\<close>

definition lamp_link_data :: link_create_data where
  "lamp_link_data =
     \<lparr>data_product = 7, data_custom_slug = None, data_landing_url = None,
      data_expires_at = None\<rparr>"

definition first_generated :: generated_values where
  "first_generated = \<lparr>new_id = 5, new_code = ''3f2504e0-4f89-11d3-9a0c-0305e82c3301''\<rparr>"

definition second_generated :: generated_values where
  "second_generated = \<lparr>new_id = 6, new_code = ''6fa459ea-ee8a-3ca4-894e-db77e160355e''\<rparr>"

definition no_links_db :: database where
  "no_links_db = example_db\<lparr>affiliate_links := []\<rparr>"

text \<open>The store in which the external URL of the first product has the scheme
  \<open>ftps\<close>, which the URL field of the product accepts.\<close>

definition ftps_product :: Product where
  "ftps_product = example_product\<lparr>external_url := Some ''ftps://files.example/lamp''\<rparr>"

definition ftps_db :: database where
  "ftps_db = example_db\<lparr>products := [ftps_product, plain_product]\<rparr>"

text \<open>A request for a link to the second product, a third set of generated values, a
  \<open>PATCH\<close> that moves a link to the first product, and the store in which the
  affiliate has a link for each of the two products.\<close>

definition third_generated :: generated_values where
  "third_generated = \<lparr>new_id = 7, new_code = ''16fd2706-8baf-433b-82eb-8c7fada847da''\<rparr>"

definition desk_link_data :: link_create_data where
  "desk_link_data =
     \<lparr>data_product = 8, data_custom_slug = None, data_landing_url = None,
      data_expires_at = None\<rparr>"

definition no_link_params :: link_query_params where
  "no_link_params = \<lparr>link_param_product = None, link_param_is_active = None\<rparr>"

definition move_to_lamp :: link_update_data where
  "move_to_lamp =
     \<lparr>put_partial = True, put_affiliate = None, put_product = Some 7, put_custom_slug = None,
      put_landing_url = None, put_is_active = None, put_expires_at = None\<rparr>"

definition two_links_db :: database where
  "two_links_db =
     run no_links_db
       [Create affiliate_user lamp_link_data first_generated,
        Create affiliate_user desk_link_data second_generated]"







section \<open>Properties of the device classification\<close>

lemma some_pattern_in_iff: "some_pattern_in ps s \<longleftrightarrow> (\<exists>p \<in> set ps. sublist p s)"
  by (induction ps) auto
lemma sublist_nonempty: "sublist p s \<Longrightarrow> p \<noteq> [] \<Longrightarrow> s \<noteq> []"
  by (cases s) auto
lemma str_lower_Nil_iff: "str_lower s = [] \<longleftrightarrow> s = []"
  by (simp add: str_lower_def)
lemma lower_match_nonempty: "sublist p (str_lower ua) \<Longrightarrow> p \<noteq> [] \<Longrightarrow> ua \<noteq> []"
  by (metis sublist_nonempty str_lower_Nil_iff)
lemma ipad_in: "''ipad'' \<in> set tablet_patterns"
  unfolding tablet_patterns_def by (simp only: list.set insertI1)
lemma android_in: "''android'' \<in> set mobile_patterns"
  unfolding mobile_patterns_def by (simp only: list.set insertI1 insertI2 insert_iff refl simp_thms)
lemma detect_device_type_Some: "detect_device_type (Some ua) =
  (if ua = [] then ''unknown''
   else if \<exists>p \<in> set tablet_patterns. sublist p (str_lower ua) then ''tablet''
   else if \<exists>p \<in> set mobile_patterns. sublist p (str_lower ua) then ''mobile''
   else ''desktop'')"
  unfolding detect_device_type_def Let_def some_pattern_in_iff by (simp only: option.case)

text \<open>
  Claim C6. Device classification is an ordered, case-insensitive substring match in
  which the tablet patterns are tried before the mobile patterns: a user agent whose
  lower-cased text contains "ipad" is a tablet; one that contains "android" and no
  tablet pattern is mobile; an absent or empty user agent is unknown; a non-empty user
  agent that matches no pattern is desktop.
\<close>

theorem detect_device_type_ordered:
  "(sublist ''ipad'' (str_lower ua) \<longrightarrow> detect_device_type (Some ua) = ''tablet'')
   \<and> (sublist ''android'' (str_lower ua)
        \<and> (\<forall>p \<in> set tablet_patterns. \<not> sublist p (str_lower ua))
      \<longrightarrow> detect_device_type (Some ua) = ''mobile'')
   \<and> detect_device_type None = ''unknown''
   \<and> detect_device_type (Some []) = ''unknown''
   \<and> (ua \<noteq> []
        \<and> (\<forall>p \<in> set tablet_patterns \<union> set mobile_patterns. \<not> sublist p (str_lower ua))
      \<longrightarrow> detect_device_type (Some ua) = ''desktop'')"
proof (intro conjI impI)
  assume ipad: "sublist ''ipad'' (str_lower ua)"
  have ne: "ua \<noteq> []"
    by (rule lower_match_nonempty [OF ipad]) simp
  have ex: "\<exists>p \<in> set tablet_patterns. sublist p (str_lower ua)"
    using ipad ipad_in by blast
  show "detect_device_type (Some ua) = ''tablet''"
    unfolding detect_device_type_Some using ne ex by (simp only: if_True if_False)
next
  assume h: "sublist ''android'' (str_lower ua)
             \<and> (\<forall>p \<in> set tablet_patterns. \<not> sublist p (str_lower ua))"
  have ne: "ua \<noteq> []"
    by (rule lower_match_nonempty [of "''android''"]) (use h in simp_all)
  have no_tablet: "\<not> (\<exists>p \<in> set tablet_patterns. sublist p (str_lower ua))"
    using h by blast
  have ex: "\<exists>p \<in> set mobile_patterns. sublist p (str_lower ua)"
    using h android_in by blast
  show "detect_device_type (Some ua) = ''mobile''"
    unfolding detect_device_type_Some using ne no_tablet ex by (simp only: if_True if_False)
next
  show "detect_device_type None = ''unknown''"
    unfolding detect_device_type_def by (simp only: option.case)
next
  show "detect_device_type (Some []) = ''unknown''"
    unfolding detect_device_type_Some by (simp only: simp_thms if_True)
next
  assume h: "ua \<noteq> []
             \<and> (\<forall>p \<in> set tablet_patterns \<union> set mobile_patterns. \<not> sublist p (str_lower ua))"
  have ne: "ua \<noteq> []" using h by blast
  have no_tablet: "\<not> (\<exists>p \<in> set tablet_patterns. sublist p (str_lower ua))"
    using h by blast
  have no_mobile: "\<not> (\<exists>p \<in> set mobile_patterns. sublist p (str_lower ua))"
    using h by blast
  show "detect_device_type (Some ua) = ''desktop''"
    unfolding detect_device_type_Some using ne no_tablet no_mobile by (simp only: if_True if_False)
qed
theorem detect_device_type_ordered_witness:
  "sublist ''ipad'' (str_lower ''Mozilla/5.0 (iPad; CPU OS 13_2 like Mac OS X) Mobile/15E148'')
   \<and> detect_device_type (Some ''Mozilla/5.0 (iPad; CPU OS 13_2 like Mac OS X) Mobile/15E148'') = ''tablet''
   \<and> sublist ''android'' (str_lower ''Mozilla/5.0 (Linux; Android 10; SM-G960U) Chrome/80 Mobile Safari'')
   \<and> detect_device_type (Some ''Mozilla/5.0 (Linux; Android 10; SM-G960U) Chrome/80 Mobile Safari'') = ''mobile''
   \<and> detect_device_type (Some ''Mozilla/5.0 (X11; Linux x86_64) Firefox/115.0'') = ''desktop''
   \<and> detect_device_type None = ''unknown''
   \<and> detect_device_type (Some []) = ''unknown''"
proof -
  let ?ipad = "''Mozilla/5.0 (iPad; CPU OS 13_2 like Mac OS X) Mobile/15E148''"
  let ?android = "''Mozilla/5.0 (Linux; Android 10; SM-G960U) Chrome/80 Mobile Safari''"
  let ?linux = "''Mozilla/5.0 (X11; Linux x86_64) Firefox/115.0''"
  have a1: "sublist ''ipad'' (str_lower ?ipad)"
    by code_simp
  have b1: "sublist ''android'' (str_lower ?android)"
    by code_simp
  have b2: "\<forall>p \<in> set tablet_patterns. \<not> sublist p (str_lower ?android)"
    by code_simp
  have c1: "?linux \<noteq> []"
    by simp
  have c2: "\<forall>p \<in> set tablet_patterns \<union> set mobile_patterns. \<not> sublist p (str_lower ?linux)"
    by code_simp
  have a: "detect_device_type (Some ?ipad) = ''tablet''"
    using detect_device_type_ordered [of ?ipad] a1 by blast
  have b: "detect_device_type (Some ?android) = ''mobile''"
    using detect_device_type_ordered [of ?android] b1 b2 by blast
  have c: "detect_device_type (Some ?linux) = ''desktop''"
    using detect_device_type_ordered [of ?linux] c1 c2 by blast
  have d: "detect_device_type None = ''unknown'' \<and> detect_device_type (Some []) = ''unknown''"
    using detect_device_type_ordered [of ?linux] by blast
  from a1 a b1 b c d show ?thesis
    by blast
qed

section \<open>Properties of the click endpoint\<close>

lemma filter_unique_key:
  "distinct (map f xs) \<Longrightarrow> x \<in> set xs
   \<Longrightarrow> filter (\<lambda>y. f y = f x \<and> P y) xs = (if P x then [x] else [])"
proof (induction xs)
  case Nil
  then show ?case by simp
next
  case (Cons a xs)
  show ?case
  proof (cases "a = x")
    case True
    with Cons.prems have "\<forall>y \<in> set xs. f y \<noteq> f x"
      by (auto simp: image_iff)
    then have "filter (\<lambda>y. f y = f x \<and> P y) xs = []"
      by (simp add: filter_empty_conv)
    with True show ?thesis by simp
  next
    case False
    with Cons.prems have "x \<in> set xs" and "f a \<noteq> f x" and "distinct (map f xs)"
      by (auto simp: image_iff)
    with Cons.IH show ?thesis by simp
  qed
qed

lemma get_active_link:
  assumes "distinct (map code (affiliate_links db))"
    and "link \<in> set (affiliate_links db)" and "is_active link"
  shows "get_object_or_404 db (code link) = Inr link"
  using filter_unique_key [OF assms(1,2), of is_active] assms(3)
  by (simp add: get_object_or_404_def AffiliateLink_objects_get_def)

lemma get_inactive_link:
  assumes "distinct (map code (affiliate_links db))"
    and "link \<in> set (affiliate_links db)" and "\<not> is_active link"
  shows "get_object_or_404 db (code link) = Inl (Http404 ''No AffiliateLink matches the given query.'')"
  using filter_unique_key [OF assms(1,2), of is_active] assms(3)
  by (simp add: get_object_or_404_def AffiliateLink_objects_get_def)

lemma get_unknown_code:
  assumes "\<forall>l \<in> set (affiliate_links db). code l \<noteq> c"
  shows "get_object_or_404 db c = Inl (Http404 ''No AffiliateLink matches the given query.'')"
proof -
  have "filter (\<lambda>l. code l = c \<and> is_active l) (affiliate_links db) = []"
    using assms by (simp add: filter_empty_conv)
  then show ?thesis
    by (simp add: get_object_or_404_def AffiliateLink_objects_get_def)
qed

lemma track_click_Http404:
  assumes "get_object_or_404 db c = Inl (Http404 msg)"
  shows "track_click rd now db META c = (HttpResponse (''Error processing click: '' @ msg) 500, db)"
  using assms by (simp add: track_click_def track_click_try_def)

lemma track_click_unknown_code:
  assumes "\<forall>l \<in> set (affiliate_links db). code l \<noteq> c"
  shows "track_click rd now db META c =
         (HttpResponse ''Error processing click: No AffiliateLink matches the given query.'' 500, db)"
  using track_click_Http404 [OF get_unknown_code [OF assms]] by simp

lemma track_click_try_found:
  assumes "get_object_or_404 db c = Inr link"
  shows "track_click_try rd now db META c =
     (if (case expires_at link of None \<Rightarrow> False | Some t \<Rightarrow> t < now)
      then (Inr (HttpResponse ''This affiliate link has expired.'' 410), db)
      else case Click_objects_create db (new_click now META link) of
             Inl e \<Rightarrow> (Inl e, db)
           | Inr db' \<Rightarrow>
               (case redirect_url db' link of
                  Inl e \<Rightarrow> (Inl e, db')
                | Inr url \<Rightarrow>
                    (case rd url of
                       Inl e \<Rightarrow> (Inl e, db')
                     | Inr response \<Rightarrow> (Inr response, db'))))"
  using assms by (simp add: track_click_try_def new_click_def Let_def)

lemma Product_objects_get_clicks:
  "Product_objects_get (db\<lparr>clicks := cs\<rparr>) pk = Product_objects_get db pk"
  by (simp add: Product_objects_get_def)

lemma redirect_url_clicks [simp]:
  "redirect_url (db\<lparr>clicks := cs\<rparr>) link = redirect_url db link"
  by (simp add: redirect_url_def Product_objects_get_clicks split: option.splits)

lemma redirect_url_found:
  assumes "Product_objects_get db (product link) = Inr p"
  shows "redirect_url db link =
     Inr (case truthy (landing_url link) of
            Some url \<Rightarrow> url
          | None \<Rightarrow>
              (case truthy (external_url p) of
                 Some url \<Rightarrow> url
               | None \<Rightarrow> ''/api/products/'' @ str_nat (product_id p) @ ''/''))"
  using assms by (simp add: redirect_url_def split: option.splits)

lemma example_codes: "distinct (map code (affiliate_links example_db))"
  by (simp add: example_db_def example_link_def landing_link_def plain_link_def inactive_link_def)

lemma example_members:
  "example_link \<in> set (affiliate_links example_db)"
  "landing_link \<in> set (affiliate_links example_db)"
  "plain_link \<in> set (affiliate_links example_db)"
  "inactive_link \<in> set (affiliate_links example_db)"
  by (simp_all add: example_db_def)

lemma str_nat_8: "str_nat 8 = ''8''"
  by code_simp

text \<open>
  Claim C3 asks that a code matching no stored link is answered with 404 and never with
  a server error. The lookup is \<open>get_object_or_404\<close>, which raises \<open>Http404\<close>;
  the handler that answers 404 catches \<open>AffiliateLink.DoesNotExist\<close> only, so the
  \<open>Http404\<close> falls to \<open>except Exception\<close>: for the well-formed code below, which
  no link of the store carries, the endpoint answers 500.
\<close>

theorem track_click_unknown_code_is_500:
  "track_click redirect 50 example_db example_META ''00000000-0000-4000-8000-000000000000'' =
     (HttpResponse ''Error processing click: No AffiliateLink matches the given query.'' 500,
      example_db)"
  by code_simp

lemma redirect_examples:
  "redirect ''https://blog.example/lamp-review'' =
     Inr (HttpResponseRedirect ''https://blog.example/lamp-review'')"
  "redirect ''https://shop.example/lamp'' = Inr (HttpResponseRedirect ''https://shop.example/lamp'')"
  "redirect ''/api/products/8/'' = Inr (HttpResponseRedirect ''/api/products/8/'')"
  "redirect ''ftps://files.example/lamp'' =
     Inl (DisallowedRedirect (''Unsafe redirect to URL with protocol '' @ [CHR 0x27] @ ''ftps''
                               @ [CHR 0x27]))"
  by code_simp+

text \<open>
  Claim C7. For every click that is recorded (the link is active, not expired, and the
  store takes the Click row), the target handed to \<open>redirect\<close> is the link's landing
  URL if set, otherwise the product's external URL if set, otherwise the internal
  product page \<open>/api/products/<id>/\<close>. The response is the redirect that
  \<open>redirect\<close> builds from this target; when \<open>redirect\<close> raises instead (Django
  refuses a target whose scheme is not \<open>http\<close>, \<open>https\<close> or \<open>ftp\<close>), the target
  was chosen in the same way and the response is that of the handlers. The Click row
  is appended in both cases.
\<close>

theorem track_click_redirect_precedence:
  assumes codes: "distinct (map code (affiliate_links db))"
    and link: "link \<in> set (affiliate_links db)" "is_active link"
    and fresh: "expires_at link = None \<or> (\<exists>t. expires_at link = Some t \<and> now \<le> t)"
    and stored: "insert_failure db = None"
    and prod: "Product_objects_get db (product link) = Inr p"
  shows "track_click rd now db META (code link) =
     (case rd (case truthy (landing_url link) of
                 Some url \<Rightarrow> url
               | None \<Rightarrow>
                   (case truthy (external_url p) of
                      Some url \<Rightarrow> url
                    | None \<Rightarrow> ''/api/products/'' @ str_nat (product_id p) @ ''/'')) of
        Inr response \<Rightarrow> response
      | Inl e \<Rightarrow>
          if e = DoesNotExist ''AffiliateLink''
          then HttpResponse ''Invalid affiliate link.'' 404
          else HttpResponse (''Error processing click: '' @ exn_str e) 500,
      db\<lparr>clicks := clicks db @ [new_click now META link]\<rparr>)"
proof -
  have found: "get_object_or_404 db (code link) = Inr link"
    using codes link by (rule get_active_link)
  have not_expired: "\<not> (case expires_at link of None \<Rightarrow> False | Some t \<Rightarrow> t < now)"
    using fresh by (auto split: option.splits)
  have created: "Click_objects_create db (new_click now META link) =
                   Inr (db\<lparr>clicks := clicks db @ [new_click now META link]\<rparr>)"
    using stored by (simp add: Click_objects_create_def)
  show ?thesis
    unfolding track_click_def track_click_try_found [OF found]
    using not_expired created redirect_url_found [OF prod]
    by (simp split: sum.splits)
qed

theorem track_click_redirect_precedence_witness:
  "fst (track_click redirect 50 example_db example_META (code landing_link)) =
     HttpResponseRedirect ''https://blog.example/lamp-review''
   \<and> fst (track_click redirect 50 example_db example_META (code example_link)) =
     HttpResponseRedirect ''https://shop.example/lamp''
   \<and> fst (track_click redirect 50 example_db example_META (code plain_link)) =
     HttpResponseRedirect ''/api/products/8/''
   \<and> clicks (snd (track_click redirect 50 example_db example_META (code plain_link))) =
     [new_click 50 example_META plain_link]
   \<and> track_click redirect 50 ftps_db example_META (code example_link) =
     (HttpResponse (''Error processing click: Unsafe redirect to URL with protocol ''
                     @ [CHR 0x27] @ ''ftps'' @ [CHR 0x27]) 500,
      ftps_db\<lparr>clicks := [new_click 50 example_META example_link]\<rparr>)"
proof -
  have ok: "insert_failure example_db = None"
    by (simp add: example_db_def)
  have p7: "Product_objects_get example_db 7 = Inr example_product"
    and p8: "Product_objects_get example_db 8 = Inr plain_product"
    by (simp_all add: Product_objects_get_def example_db_def example_product_def plain_product_def)
  have a: "fst (track_click redirect 50 example_db example_META (code landing_link)) =
             HttpResponseRedirect ''https://blog.example/lamp-review''"
    using track_click_redirect_precedence
            [OF example_codes example_members(2), where now = 50 and p = example_product
               and rd = redirect and META = example_META] ok p7
    by (simp add: landing_link_def truthy_def redirect_examples)
  have b: "fst (track_click redirect 50 example_db example_META (code example_link)) =
             HttpResponseRedirect ''https://shop.example/lamp''"
    using track_click_redirect_precedence
            [OF example_codes example_members(1), where now = 50 and p = example_product
               and rd = redirect and META = example_META] ok p7
    by (simp add: example_link_def example_product_def truthy_def redirect_examples)
  have c: "track_click redirect 50 example_db example_META (code plain_link) =
             (HttpResponseRedirect ''/api/products/8/'',
              example_db\<lparr>clicks := clicks example_db @ [new_click 50 example_META plain_link]\<rparr>)"
    using track_click_redirect_precedence
            [OF example_codes example_members(3), where now = 50 and p = plain_product
               and rd = redirect and META = example_META] ok p8
    by (simp add: plain_link_def plain_product_def truthy_def str_nat_8 redirect_examples)
  have d: "clicks example_db = []"
    by (simp add: example_db_def)
  have links: "affiliate_links ftps_db = affiliate_links example_db"
    and ok': "insert_failure ftps_db = None" and d': "clicks ftps_db = []"
    by (simp_all add: ftps_db_def example_db_def)
  have p7': "Product_objects_get ftps_db 7 = Inr ftps_product"
    by (simp add: Product_objects_get_def ftps_db_def ftps_product_def example_product_def)
  have e: "track_click redirect 50 ftps_db example_META (code example_link) =
     (HttpResponse (''Error processing click: Unsafe redirect to URL with protocol ''
                     @ [CHR 0x27] @ ''ftps'' @ [CHR 0x27]) 500,
      ftps_db\<lparr>clicks := [new_click 50 example_META example_link]\<rparr>)"
    using track_click_redirect_precedence
            [where db = ftps_db and link = example_link and now = 50 and p = ftps_product
               and rd = redirect and META = example_META]
          example_codes example_members(1) ok' p7' d'
    by (simp add: links example_link_def ftps_product_def example_product_def truthy_def
          redirect_examples)
  from a b c d e show ?thesis
    by simp
qed

text \<open>
  Claim C4 as amended. When the store rejects the Click row of a click on an active,
  unexpired link, the failure is not swallowed: the visitor receives a 500 response
  carrying the failure's message instead of the redirect, and the store is unchanged.
\<close>

theorem track_click_insert_failure:
  assumes codes: "distinct (map code (affiliate_links db))"
    and link: "link \<in> set (affiliate_links db)" "is_active link"
    and fresh: "expires_at link = None \<or> (\<exists>t. expires_at link = Some t \<and> now \<le> t)"
    and failed: "insert_failure db = Some msg"
  shows "track_click rd now db META (code link) =
           (HttpResponse (''Error processing click: '' @ msg) 500, db)"
proof -
  have found: "get_object_or_404 db (code link) = Inr link"
    using codes link by (rule get_active_link)
  have not_expired: "\<not> (case expires_at link of None \<Rightarrow> False | Some t \<Rightarrow> t < now)"
    using fresh by (auto split: option.splits)
  have rejected: "Click_objects_create db (new_click now META link) = Inl (DatabaseError msg)"
    using failed by (simp add: Click_objects_create_def)
  show ?thesis
    unfolding track_click_def track_click_try_found [OF found]
    using not_expired rejected by simp
qed

theorem track_click_insert_failure_witness:
  "track_click redirect 50 (example_db\<lparr>insert_failure := Some ''database is locked''\<rparr>) example_META
      (code landing_link) =
     (HttpResponse ''Error processing click: database is locked'' 500,
      example_db\<lparr>insert_failure := Some ''database is locked''\<rparr>)"
proof -
  let ?db = "example_db\<lparr>insert_failure := Some ''database is locked''\<rparr>"
  have codes: "distinct (map code (affiliate_links ?db))"
    using example_codes by simp
  have member: "landing_link \<in> set (affiliate_links ?db)"
    using example_members(2) by simp
  have active: "is_active landing_link" and fresh: "expires_at landing_link = None"
    by (simp_all add: landing_link_def)
  have failed: "insert_failure ?db = Some ''database is locked''"
    by simp
  show ?thesis
    using track_click_insert_failure [OF codes member active _ failed, where now = 50 and rd = redirect and META = example_META] fresh
    by simp
qed

text \<open>The claim as stated fails: the precedence rule yields the product's external
  URL, and the visitor is answered with status 500.\<close>

theorem track_click_insert_failure_counterexample:
  "redirect_url (example_db\<lparr>insert_failure := Some ''database is locked''\<rparr>) example_link =
     Inr ''https://shop.example/lamp''
   \<and> fst (track_click redirect 50 (example_db\<lparr>insert_failure := Some ''database is locked''\<rparr>)
            example_META ''123e4567-e89b-12d3-a456-426614174000'') =
     HttpResponse ''Error processing click: database is locked'' 500"
  by code_simp

text \<open>
  Claim C5 as amended. A click on an active link whose \<open>expires_at\<close> is set and in
  the past is answered with 410 ("This affiliate link has expired."), and no Click is
  recorded. A click on a link that exists but is inactive is never answered with 410:
  the lookup filters on \<open>is_active=True\<close>, so the link is not resolved at all; no
  Click is recorded either.
\<close>

theorem track_click_expired_or_inactive:
  assumes codes: "distinct (map code (affiliate_links db))"
    and link: "link \<in> set (affiliate_links db)"
  shows "(is_active link \<and> (\<exists>t. expires_at link = Some t \<and> t < now)
            \<longrightarrow> track_click rd now db META (code link) =
                  (HttpResponse ''This affiliate link has expired.'' 410, db))
         \<and> (\<not> is_active link
            \<longrightarrow> status_code (fst (track_click rd now db META (code link))) \<noteq> 410
                \<and> snd (track_click rd now db META (code link)) = db)"
proof -
  have expired_case:
    "track_click rd now db META (code link) =
       (HttpResponse ''This affiliate link has expired.'' 410, db)"
    if h: "is_active link \<and> (\<exists>t. expires_at link = Some t \<and> t < now)"
  proof -
    have found: "get_object_or_404 db (code link) = Inr link"
      using h codes link get_active_link by blast
    from h have expired: "(case expires_at link of None \<Rightarrow> False | Some t \<Rightarrow> t < now)"
      by auto
    show ?thesis
      unfolding track_click_def track_click_try_found [OF found] using expired by simp
  qed
  have inactive_case:
    "status_code (fst (track_click rd now db META (code link))) \<noteq> 410
     \<and> snd (track_click rd now db META (code link)) = db"
    if h: "\<not> is_active link"
  proof -
    have "track_click rd now db META (code link) =
        (HttpResponse (''Error processing click: '' @ ''No AffiliateLink matches the given query.'')
           500, db)"
      using h codes link get_inactive_link track_click_Http404 by blast
    then show ?thesis by simp
  qed
  from expired_case inactive_case show ?thesis
    by blast
qed

theorem track_click_expired_or_inactive_witness:
  "track_click redirect 150 example_db example_META (code example_link) =
     (HttpResponse ''This affiliate link has expired.'' 410, example_db)
   \<and> status_code (fst (track_click redirect 150 example_db example_META (code inactive_link))) \<noteq> 410
   \<and> snd (track_click redirect 150 example_db example_META (code inactive_link)) = example_db"
proof -
  have a: "is_active example_link \<and> (\<exists>t. expires_at example_link = Some t \<and> t < 150)"
    by (simp add: example_link_def)
  have b: "\<not> is_active inactive_link"
    by (simp add: inactive_link_def)
  from track_click_expired_or_inactive [OF example_codes example_members(1), where now = 150 and rd = redirect
          and META = example_META] a
  have "track_click redirect 150 example_db example_META (code example_link) =
          (HttpResponse ''This affiliate link has expired.'' 410, example_db)"
    by blast
  moreover
  from track_click_expired_or_inactive [OF example_codes example_members(4), where now = 150 and rd = redirect
          and META = example_META] b
  have "status_code (fst (track_click redirect 150 example_db example_META (code inactive_link))) \<noteq> 410
        \<and> snd (track_click redirect 150 example_db example_META (code inactive_link)) = example_db"
    by blast
  ultimately show ?thesis
    by blast
qed

text \<open>The claim as stated fails for the deactivated link of the example store: the
  response is not the 410 of an expired link.\<close>

theorem track_click_inactive_counterexample:
  "inactive_link \<in> set (affiliate_links example_db)
   \<and> \<not> is_active inactive_link
   \<and> status_code (fst (track_click redirect 50 example_db example_META
                         ''7c9e6679-7425-40de-944b-e07fc1f90ae7'')) = 500"
  by code_simp

section \<open>Properties of the conversions list\<close>

lemma role_filter_other:
  assumes "role u \<noteq> ''affiliate''" "role u \<noteq> ''merchant''"
  shows "role_filter db u qs = qs"
  using assms by (simp add: role_filter_def is_affiliate_def is_merchant_def)

lemma query_param_filters_none: "query_param_filters no_query_params qs = qs"
  by (simp add: query_param_filters_def no_query_params_def)

text \<open>
  Claim C10. For a user whose role is neither "affiliate" nor "merchant", both
  \<open>is_affiliate\<close> and \<open>is_merchant\<close> are false, so the conversions list applies no
  role-based filter: the queryset is the filters by query parameter over all the
  conversions of the store, and without query parameters it holds every conversion.
\<close>

theorem conversions_unscoped_for_other_roles:
  assumes "role u \<noteq> ''affiliate''" and "role u \<noteq> ''merchant''"
  shows "\<not> is_affiliate u \<and> \<not> is_merchant u
         \<and> ConversionViewSet_get_queryset db u params =
             sort_key (\<lambda>c. - conversion_timestamp c) (query_param_filters params (conversions db))
         \<and> mset (ConversionViewSet_get_queryset db u no_query_params) = mset (conversions db)"
proof -
  have roles: "\<not> is_affiliate u \<and> \<not> is_merchant u"
    using assms by (simp add: is_affiliate_def is_merchant_def)
  have unscoped: "role_filter db u (conversions db) = conversions db"
    using assms by (rule role_filter_other)
  have general: "ConversionViewSet_get_queryset db u params =
      sort_key (\<lambda>c. - conversion_timestamp c) (query_param_filters params (conversions db))"
    by (simp add: ConversionViewSet_get_queryset_def unscoped)
  have everything: "mset (ConversionViewSet_get_queryset db u no_query_params) = mset (conversions db)"
    by (simp add: ConversionViewSet_get_queryset_def unscoped query_param_filters_none)
  from roles general everything show ?thesis
    by blast
qed

theorem conversions_unscoped_for_other_roles_witness:
  "role staff_user \<noteq> ''affiliate'' \<and> role staff_user \<noteq> ''merchant''
   \<and> mset (ConversionViewSet_get_queryset ledger_db staff_user no_query_params) = mset [first_conversion, second_conversion]
   \<and> map conversion_id (ConversionViewSet_get_queryset ledger_db affiliate_user no_query_params) = [1]"
proof -
  have r: "role staff_user \<noteq> ''affiliate''" "role staff_user \<noteq> ''merchant''"
    by (simp_all add: staff_user_def)
  have c: "conversions ledger_db = [first_conversion, second_conversion]"
    by (simp add: ledger_db_def)
  have own: "map conversion_id (ConversionViewSet_get_queryset ledger_db affiliate_user no_query_params) = [1]"
    by code_simp
  from conversions_unscoped_for_other_roles [OF r, of ledger_db no_query_params]
  have "mset (ConversionViewSet_get_queryset ledger_db staff_user no_query_params) =
          mset (conversions ledger_db)"
    by blast
  then have every: "mset (ConversionViewSet_get_queryset ledger_db staff_user no_query_params) =
          mset [first_conversion, second_conversion]"
    by (simp only: c)
  from r every own show ?thesis
    by blast
qed

section \<open>Properties of the product statistics\<close>

lemma or_0_Sum: "or_0 (aggregate_Sum xs) = sum_list xs"
  by (simp add: or_0_def aggregate_Sum_def)

lemma compute_stats_aggregates:
  "average_commission_rate (compute_stats db user) =
     (if stats_queryset db user = [] then 0
      else Decimal_truediv (sum_list (map commission_rate (stats_queryset db user)))
             (of_nat (length (stats_queryset db user))))"
  "average_price (compute_stats db user) = sum_list (map price (stats_queryset db user))"
  by (simp_all add: compute_stats_def Let_def or_0_Sum)

text \<open>
  Claim C8 as amended. On a cache miss, the "average commission rate" of the product
  stats endpoint is the sum of \<open>commission_rate\<close> over the products of the queryset
  divided by their number (a \<open>Decimal\<close> division), that is the mean commission rate,
  and 0 when there is no product; no price enters it. It is \<open>average_price\<close> that is
  left as the undivided sum of the prices.
\<close>

theorem stats_average_commission_rate:
  assumes "cache (''product_stats_'' @ str_nat (user_id user)) = None"
  shows "average_commission_rate (fst (ProductViewSet_stats cache db user)) =
           (if stats_queryset db user = [] then 0
            else Decimal_truediv (sum_list (map commission_rate (stats_queryset db user)))
                   (of_nat (length (stats_queryset db user))))
         \<and> average_price (fst (ProductViewSet_stats cache db user)) =
             sum_list (map price (stats_queryset db user))"
  using assms by (simp add: ProductViewSet_stats_def Let_def compute_stats_aggregates)

lemma example_stats_queryset:
  "stats_queryset example_db merchant_user = [example_product, plain_product]"
  by code_simp

lemma example_mean: "Decimal_truediv 15 2 = 15 / 2"
  by code_simp

theorem stats_average_commission_rate_witness:
  "average_commission_rate (fst (ProductViewSet_stats Map.empty example_db merchant_user)) = 15 / 2
   \<and> average_price (fst (ProductViewSet_stats Map.empty example_db merchant_user)) = 170"
  using stats_average_commission_rate [of Map.empty merchant_user example_db]
  by (simp add: example_stats_queryset example_product_def plain_product_def example_mean)

text \<open>The claim as stated fails: for the two products of the example merchant (prices
  50 and 120, rates 10 and 5) the aggregate is the mean rate 7.5, not the summed price
  over the count, 85.\<close>

theorem stats_average_commission_rate_counterexample:
  "map price (stats_queryset example_db merchant_user) = [50, 120]
   \<and> map commission_rate (stats_queryset example_db merchant_user) = [10, 5]
   \<and> average_commission_rate (fst (ProductViewSet_stats Map.empty example_db merchant_user)) =
       (10 + 5) / 2
   \<and> average_commission_rate (fst (ProductViewSet_stats Map.empty example_db merchant_user)) \<noteq>
       (50 + 120) / 2"
  by code_simp

section \<open>Properties of the link table\<close>

lemma product_by_id_id: "product_by_id db pk = Some p \<Longrightarrow> product_id p = pk"
  by (auto simp: product_by_id_def find_Some_iff)

lemma validate_product_id: "validate_product db pk = Inr p \<Longrightarrow> product_id p = pk"
  by (auto simp: validate_product_def product_by_id_id split: option.splits if_splits)

lemma validate_product_error:
  "validate_product db pk = Inl e \<Longrightarrow> \<exists>msg. e = ValidationError msg"
  by (auto simp: validate_product_def split: option.splits if_splits)

lemma table_ok_db: "primary_keys db \<and> one_link_per_pair db \<longleftrightarrow> table_ok (affiliate_links db)"
  by (simp add: table_ok_def primary_keys_def one_link_per_pair_def pair_of_def [abs_def])

lemma table_ok_append:
  assumes "table_ok ls" "link_id r \<notin> link_id ` set ls" "pair_of r \<notin> pair_of ` set ls"
  shows "table_ok (ls @ [r])"
  using assms by (simp add: table_ok_def)

lemma table_ok_filter: "table_ok ls \<Longrightarrow> table_ok (filter P ls)"
  by (simp add: table_ok_def distinct_map_filter)

lemma in_set_mapD:
  assumes "v \<in> set (map f xs)"
  obtains y where "y \<in> set xs" "f y = v"
  using assms by auto

lemma replace_other:
  assumes "\<forall>x \<in> set ls. link_id x \<noteq> link_id r"
  shows "map (\<lambda>l. if link_id l = link_id r then r else l) ls = ls"
  using assms by (induction ls) simp_all

lemma replace_keys:
  "map link_id (map (\<lambda>l. if link_id l = link_id r then r else l) ls) = map link_id ls"
  by (induction ls) simp_all

lemma replace_set:
  "set (map (\<lambda>l. if link_id l = link_id r then r else l) ls) \<subseteq> insert r (set ls)"
  by auto

lemma table_ok_replace:
  assumes "table_ok ls"
    and "\<forall>x \<in> set ls. link_id x \<noteq> link_id r \<longrightarrow> pair_of x \<noteq> pair_of r"
  shows "table_ok (map (\<lambda>l. if link_id l = link_id r then r else l) ls)"
  using assms
proof (induction ls)
  case Nil
  then show ?case by (simp add: table_ok_def)
next
  case (Cons a ls)
  let ?m = "map (\<lambda>l. if link_id l = link_id r then r else l)"
  from Cons.prems have ok: "table_ok ls"
    and key_a: "link_id a \<notin> link_id ` set ls" and pair_a: "pair_of a \<notin> pair_of ` set ls"
    and others: "\<forall>x \<in> set ls. link_id x \<noteq> link_id r \<longrightarrow> pair_of x \<noteq> pair_of r"
    by (auto simp: table_ok_def)
  from Cons.IH [OF ok others] have IH: "table_ok (?m ls)" .
  show ?case
  proof (cases "link_id a = link_id r")
    case True
    with key_a have no: "\<forall>x \<in> set ls. link_id x \<noteq> link_id r"
      by (metis imageI)
    then have same: "?m ls = ls" by (rule replace_other)
    from no others have "pair_of r \<notin> pair_of ` set ls" by auto
    with True key_a ok same show ?thesis
      by (simp add: table_ok_def)
  next
    case False
    with Cons.prems(2) have ar: "pair_of a \<noteq> pair_of r" by simp
    have p: "pair_of a \<notin> set (map pair_of (?m ls))"
    proof
      assume "pair_of a \<in> set (map pair_of (?m ls))"
      then obtain y where y: "y \<in> set (?m ls)" "pair_of y = pair_of a"
        by (rule in_set_mapD)
      from y(1) replace_set [of r ls] have "y = r \<or> y \<in> set ls"
        by blast
      with y(2) ar pair_a show False
        by (metis imageI)
    qed
    have k: "link_id a \<notin> set (map link_id (?m ls))"
      using key_a by (simp only: replace_keys) simp
    from IH have d: "distinct (map link_id (?m ls))" "distinct (map pair_of (?m ls))"
      by (simp_all only: table_ok_def)
    have step: "?m (a # ls) = a # ?m ls"
      using False by simp
    show ?thesis
      unfolding step table_ok_def using p k d
      by (simp only: list.map distinct.simps simp_thms)
  qed
qed

lemma pairs_update_is_active:
  "map pair_of (map (\<lambda>l. if link_id l \<in> selected then l\<lparr>is_active := b\<rparr> else l) ls)
   = map pair_of ls"
  by (induction ls) (simp_all add: pair_of_def)

lemma keys_update_is_active:
  "map link_id (map (\<lambda>l. if link_id l \<in> selected then l\<lparr>is_active := b\<rparr> else l) ls)
   = map link_id ls"
  by (induction ls) simp_all

lemma update_is_active_ok:
  assumes "table_ok (affiliate_links db)"
  shows "table_ok (affiliate_links (update_is_active db selected b))"
proof -
  have "affiliate_links (update_is_active db selected b) =
          map (\<lambda>l. if link_id l \<in> selected then l\<lparr>is_active := b\<rparr> else l) (affiliate_links db)"
    by (simp add: update_is_active_def)
  then show ?thesis
    using assms unfolding table_ok_def
    by (simp only: pairs_update_is_active keys_update_is_active)
qed

lemma insert_ok:
  assumes "table_ok (affiliate_links db)" "AffiliateLink_objects_create db r = Inr db'"
    and "pair_of r \<notin> pair_of ` set (affiliate_links db)"
  shows "table_ok (affiliate_links db')"
proof -
  from assms(2) have "link_id r \<notin> link_id ` set (affiliate_links db)"
    and "affiliate_links db' = affiliate_links db @ [r]"
    by (auto simp: AffiliateLink_objects_create_def split: option.splits if_splits)
  with assms(1,3) show ?thesis
    by (simp add: table_ok_append)
qed

lemma create_ok:
  assumes "table_ok (affiliate_links db)"
  shows "table_ok (affiliate_links (snd (AffiliateLinkViewSet_create db user d g)))"
proof (cases "validate_product db (data_product d)")
  case (Inl e)
  with assms show ?thesis by (simp add: AffiliateLinkViewSet_create_def)
next
  case (Inr p)
  show ?thesis
  proof (cases "validate_link db user p")
    case (Inl e)
    with Inr assms show ?thesis by (simp add: AffiliateLinkViewSet_create_def)
  next
    case vl: (Inr p')
    then have same: "p' = p"
      and none: "filter (\<lambda>l. affiliate l = user_id user \<and> product l = product_id p)
                   (affiliate_links db) = []"
      by (auto simp: validate_link_def split: if_splits)
    let ?row = "\<lparr>link_id = new_id g, code = new_code g, affiliate = user_id user,
                 product = product_id p, custom_slug = data_custom_slug d,
                 landing_url = data_landing_url d, is_active = True,
                 expires_at = data_expires_at d\<rparr>"
    from none have fresh: "pair_of ?row \<notin> pair_of ` set (affiliate_links db)"
      by (auto simp: filter_empty_conv pair_of_def)
    show ?thesis
    proof (cases "AffiliateLink_objects_create db ?row")
      case (Inl e)
      with Inr vl same assms show ?thesis
        by (simp add: AffiliateLinkViewSet_create_def)
    next
      case ins: (Inr db')
      from insert_ok [OF assms ins fresh] Inr vl same ins assms show ?thesis
        by (simp add: AffiliateLinkViewSet_create_def)
    qed
  qed
qed

lemma serializer_validators:
  "[''affiliate'', ''product'']
     \<in> set (unique_together_validators
              (writable_fields AffiliateLinkSerializer_fields
                 AffiliateLinkSerializer_read_only_fields
                 AffiliateLinkSerializer_declared_read_only))"
  by code_simp

lemma form_validators:
  "[''affiliate'', ''product''] \<in> set (unique_together_validators AffiliateLinkAdmin_form_fields)"
  by code_simp

lemma save_ok:
  assumes "table_ok (affiliate_links db)"
    and "\<forall>x \<in> set (affiliate_links db). link_id x \<noteq> link_id r \<longrightarrow> pair_of x \<noteq> pair_of r"
  shows "table_ok (affiliate_links (AffiliateLink_save db r))"
  using table_ok_replace [OF assms] by (simp add: AffiliateLink_save_def)

lemma is_valid_row:
  assumes "AffiliateLinkSerializer_is_valid db instance d = Inr row"
  shows "link_id row = link_id instance
         \<and> (\<forall>x \<in> set (affiliate_links db). link_id x \<noteq> link_id row \<longrightarrow> pair_of x \<noteq> pair_of row)"
  using assms serializer_validators
  by (auto simp: AffiliateLinkSerializer_is_valid_def Let_def filter_empty_conv pair_of_def
           split: if_splits option.splits sum.splits)

lemma update_ok:
  assumes "table_ok (affiliate_links db)"
  shows "table_ok (affiliate_links (snd (AffiliateLinkViewSet_update db user params pk d)))"
proof (cases "AffiliateLinkViewSet_get_object db user params pk")
  case (Inl e)
  with assms show ?thesis by (simp add: AffiliateLinkViewSet_update_def)
next
  case (Inr inst)
  show ?thesis
  proof (cases "AffiliateLinkSerializer_is_valid db inst d")
    case (Inl e)
    with Inr assms show ?thesis by (simp add: AffiliateLinkViewSet_update_def)
  next
    case valid: (Inr row)
    from is_valid_row [OF valid] save_ok [OF assms, of row]
    have "table_ok (affiliate_links (AffiliateLink_save db row))" by blast
    with Inr valid assms show ?thesis
      by (simp add: AffiliateLinkViewSet_update_def)
  qed
qed

lemma delete_ok:
  "table_ok (affiliate_links db) \<Longrightarrow> table_ok (affiliate_links (AffiliateLink_delete db selected))"
  by (simp add: AffiliateLink_delete_def table_ok_filter)

lemma destroy_ok:
  assumes "table_ok (affiliate_links db)"
  shows "table_ok (affiliate_links (snd (AffiliateLinkViewSet_destroy db user params pk)))"
  using assms delete_ok [OF assms]
  by (simp add: AffiliateLinkViewSet_destroy_def split: sum.splits)

lemma admin_add_ok:
  assumes "table_ok (affiliate_links db)"
  shows "table_ok (affiliate_links (AffiliateLinkAdmin_add db f g))"
proof (cases "form_is_valid db None f")
  case False
  with assms show ?thesis by (simp add: AffiliateLinkAdmin_add_def)
next
  case True
  let ?row = "\<lparr>link_id = new_id g, code = new_code g, affiliate = form_affiliate f,
               product = form_product f, custom_slug = form_custom_slug f,
               landing_url = form_landing_url f, is_active = form_is_active f,
               expires_at = form_expires_at f\<rparr>"
  from True form_validators
  have fresh: "pair_of ?row \<notin> pair_of ` set (affiliate_links db)"
    by (auto simp: form_is_valid_def filter_empty_conv pair_of_def)
  show ?thesis
  proof (cases "AffiliateLink_objects_create db ?row")
    case (Inl e)
    with True assms show ?thesis by (simp add: AffiliateLinkAdmin_add_def)
  next
    case ins: (Inr db')
    from insert_ok [OF assms ins fresh] True ins show ?thesis
      by (simp add: AffiliateLinkAdmin_add_def)
  qed
qed

lemma admin_change_ok:
  assumes "table_ok (affiliate_links db)"
  shows "table_ok (affiliate_links (AffiliateLinkAdmin_change db pk f))"
proof (cases "find (\<lambda>l. link_id l = pk) (affiliate_links db)")
  case None
  with assms show ?thesis by (simp add: AffiliateLinkAdmin_change_def)
next
  case (Some inst)
  then have key: "link_id inst = pk"
    by (auto simp: find_Some_iff)
  show ?thesis
  proof (cases "form_is_valid db (Some pk) f")
    case False
    with Some assms show ?thesis by (simp add: AffiliateLinkAdmin_change_def)
  next
    case True
    let ?row = "inst\<lparr>affiliate := form_affiliate f, product := form_product f,
                         custom_slug := form_custom_slug f, landing_url := form_landing_url f,
                         is_active := form_is_active f, expires_at := form_expires_at f\<rparr>"
    from True form_validators key
    have "\<forall>x \<in> set (affiliate_links db). link_id x \<noteq> link_id ?row \<longrightarrow> pair_of x \<noteq> pair_of ?row"
      by (auto simp: form_is_valid_def filter_empty_conv pair_of_def)
    from save_ok [OF assms this] Some True show ?thesis
      by (simp add: AffiliateLinkAdmin_change_def)
  qed
qed

lemma handle_ok:
  "table_ok (affiliate_links db) \<Longrightarrow> table_ok (affiliate_links (handle db r))"
  by (cases r)
     (simp_all add: create_ok update_ok destroy_ok update_is_active_ok admin_add_ok
        admin_change_ok delete_ok)

lemma run_ok:
  "table_ok (affiliate_links db) \<Longrightarrow> table_ok (affiliate_links (run db rs))"
  unfolding run_def by (induction rs arbitrary: db) (simp_all add: handle_ok)


lemma duplicate_refused:
  assumes "l \<in> set (affiliate_links db)" "affiliate l = user_id user" "product l = data_product d"
  shows "\<exists>msg. AffiliateLinkViewSet_create db user d g = (Inl (ValidationError msg), db)"
proof (cases "validate_product db (data_product d)")
  case (Inl e)
  then show ?thesis
    using validate_product_error [OF Inl] by (auto simp: AffiliateLinkViewSet_create_def)
next
  case (Inr p)
  then have "product_id p = data_product d" by (rule validate_product_id)
  with assms have "filter (\<lambda>l. affiliate l = user_id user \<and> product l = product_id p) (affiliate_links db) \<noteq> []"
    by (auto simp: filter_empty_conv)
  then have "validate_link db user p = Inl (ValidationError ''You already have an affiliate link for this product.'')"
    by (simp add: validate_link_def)
  with Inr show ?thesis by (simp add: AffiliateLinkViewSet_create_def)
qed

lemma duplicate_message:
  assumes "l \<in> set (affiliate_links db)" "affiliate l = user_id user" "product l = data_product d"
    and "product_by_id db (data_product d) = Some p" "product_is_active p"
  shows "AffiliateLinkViewSet_create db user d g =
           (Inl (ValidationError ''You already have an affiliate link for this product.''), db)"
proof -
  have vp: "validate_product db (data_product d) = Inr p"
    using assms(4,5) by (simp add: validate_product_def)
  then have "product_id p = data_product d" by (rule validate_product_id)
  with assms(1-3) have "filter (\<lambda>l. affiliate l = user_id user \<and> product l = product_id p)
                          (affiliate_links db) \<noteq> []"
    by (auto simp: filter_empty_conv)
  then have "validate_link db user p =
               Inl (ValidationError ''You already have an affiliate link for this product.'')"
    by (simp add: validate_link_def)
  with vp show ?thesis by (simp add: AffiliateLinkViewSet_create_def)
qed

text \<open>
  Claim C2 as amended. In a link table with distinct primary keys and at most one row
  per (affiliate, product) pair (an empty table is one), every run of requests that
  change the table leaves at most one row per pair, active or inactive: creations,
  updates and deletions through the API, the admin's activation and deactivation
  actions, its add and change forms, and removals of rows. A creation attempt by an
  affiliate who already has a link for the product fails with a \<open>ValidationError\<close>
  (status 400, the error class that also reports an inactive product) and leaves the
  store unchanged; for an existing active product its message is "You already have an
  affiliate link for this product.".
\<close>

theorem one_link_per_affiliate_and_product:
  assumes keys: "primary_keys db" and pairs: "one_link_per_pair db"
  shows "one_link_per_pair (run db requests)
         \<and> (\<forall>l \<in> set (affiliate_links db).
               affiliate l = user_id user \<and> product l = data_product d \<longrightarrow>
                 (\<exists>msg. AffiliateLinkViewSet_create db user d g = (Inl (ValidationError msg), db)
                        \<and> exception_status (ValidationError msg) = 400)
                 \<and> (\<forall>p. product_by_id db (data_product d) = Some p \<and> product_is_active p \<longrightarrow>
                        AffiliateLinkViewSet_create db user d g =
                          (Inl (ValidationError
                                  ''You already have an affiliate link for this product.''), db)))"
proof (intro conjI ballI impI allI)
  from keys pairs have "table_ok (affiliate_links db)"
    using table_ok_db by blast
  then have "table_ok (affiliate_links (run db requests))"
    by (rule run_ok)
  then show "one_link_per_pair (run db requests)"
    using table_ok_db by blast
next
  fix l
  assume "l \<in> set (affiliate_links db)"
    and "affiliate l = user_id user \<and> product l = data_product d"
  then obtain msg where
    "AffiliateLinkViewSet_create db user d g = (Inl (ValidationError msg), db)"
    using duplicate_refused by blast
  then show "\<exists>msg. AffiliateLinkViewSet_create db user d g = (Inl (ValidationError msg), db)
                   \<and> exception_status (ValidationError msg) = 400"
    by simp
next
  fix l p
  assume "l \<in> set (affiliate_links db)"
    and "affiliate l = user_id user \<and> product l = data_product d"
    and "product_by_id db (data_product d) = Some p \<and> product_is_active p"
  then show "AffiliateLinkViewSet_create db user d g =
      (Inl (ValidationError ''You already have an affiliate link for this product.''), db)"
    using duplicate_message by blast
qed

lemma two_links:
  "two_links_db =
     no_links_db\<lparr>affiliate_links :=
       [\<lparr>link_id = 5, code = ''3f2504e0-4f89-11d3-9a0c-0305e82c3301'', affiliate = 1,
         product = 7, custom_slug = None, landing_url = None, is_active = True,
         expires_at = None\<rparr>,
        \<lparr>link_id = 6, code = ''6fa459ea-ee8a-3ca4-894e-db77e160355e'', affiliate = 1,
         product = 8, custom_slug = None, landing_url = None, is_active = True,
         expires_at = None\<rparr>]\<rparr>"
  by code_simp

lemma update_refused:
  "AffiliateLinkViewSet_update two_links_db affiliate_user no_link_params 6 move_to_lamp =
     (Inl (ValidationError ''The fields affiliate, product must make a unique set.''),
      two_links_db)"
  by code_simp

theorem one_link_per_affiliate_and_product_witness:
  "primary_keys two_links_db \<and> one_link_per_pair two_links_db
   \<and> one_link_per_pair
       (run two_links_db
          [Update affiliate_user no_link_params 6 move_to_lamp,
           Deactivate {5},
           Create affiliate_user lamp_link_data third_generated,
           Destroy affiliate_user no_link_params 5,
           Update affiliate_user no_link_params 6 move_to_lamp])
   \<and> AffiliateLinkViewSet_create two_links_db affiliate_user lamp_link_data third_generated =
     (Inl (ValidationError ''You already have an affiliate link for this product.''),
      two_links_db)
   \<and> AffiliateLinkViewSet_update two_links_db affiliate_user no_link_params 6 move_to_lamp =
     (Inl (ValidationError ''The fields affiliate, product must make a unique set.''),
      two_links_db)"
proof -
  let ?l = "\<lparr>link_id = 5, code = ''3f2504e0-4f89-11d3-9a0c-0305e82c3301'', affiliate = 1,
            product = 7, custom_slug = None, landing_url = None, is_active = True,
            expires_at = None\<rparr> :: AffiliateLink"
  have keys: "primary_keys two_links_db" and pairs: "one_link_per_pair two_links_db"
    unfolding two_links by (simp_all add: primary_keys_def one_link_per_pair_def)
  have member: "?l \<in> set (affiliate_links two_links_db)"
    unfolding two_links by simp
  have pair: "affiliate ?l = user_id affiliate_user \<and> product ?l = data_product lamp_link_data"
    by (simp add: affiliate_user_def lamp_link_data_def)
  have prod: "product_by_id two_links_db (data_product lamp_link_data) = Some example_product
              \<and> product_is_active example_product"
    unfolding two_links
    by (simp add: product_by_id_def no_links_db_def example_db_def example_product_def
          lamp_link_data_def)
  have again:
    "AffiliateLinkViewSet_create two_links_db affiliate_user lamp_link_data third_generated =
      (Inl (ValidationError ''You already have an affiliate link for this product.''),
       two_links_db)"
    using one_link_per_affiliate_and_product
            [OF keys pairs, of "[]" affiliate_user lamp_link_data third_generated]
          member pair prod
    by blast
  have all: "one_link_per_pair
       (run two_links_db
          [Update affiliate_user no_link_params 6 move_to_lamp,
           Deactivate {5},
           Create affiliate_user lamp_link_data third_generated,
           Destroy affiliate_user no_link_params 5,
           Update affiliate_user no_link_params 6 move_to_lamp])"
    using one_link_per_affiliate_and_product [OF keys pairs] by blast
  from keys pairs all again update_refused show ?thesis
    by blast
qed

text \<open>The claim as stated fails: the second attempt is refused with the
  \<open>ValidationError\<close> of status 400, the error that an inactive product gets as
  well, and not with a conflict error (status 409) of its own.\<close>

theorem duplicate_link_counterexample:
  "fst (AffiliateLinkViewSet_create example_db affiliate_user lamp_link_data second_generated) =
     Inl (ValidationError ''You already have an affiliate link for this product.'')
   \<and> exception_status
        (ValidationError ''You already have an affiliate link for this product.'') = 400
   \<and> exception_status
        (ValidationError ''You already have an affiliate link for this product.'') \<noteq> 409
   \<and> fst (AffiliateLinkViewSet_create
            (no_links_db\<lparr>products := [example_product\<lparr>product_is_active := False\<rparr>]\<rparr>)
            affiliate_user lamp_link_data second_generated) =
     Inl (ValidationError ''Cannot create links for inactive products.'')"
  by code_simp

section \<open>Properties of the commission snapshot\<close>

































end
